theory Spec2Isabelle
  imports Complex_Main "HOL-Library.Word"
begin

section \<open>pygeos.constructive: the Python values the module handles\<close>

text \<open>
  The module \<^verbatim>\<open>pygeos/constructive.py\<close> is a thin layer over the compiled module
  \<^verbatim>\<open>pygeos.ufuncs\<close>: each public function forwards to the ufunc of the same
  name; \<^verbatim>\<open>buffer\<close> first resolves style names, checks that five parameters are
  scalars and coerces them; \<^verbatim>\<open>simplify\<close> chooses between two ufuncs.

  A Python \<^verbatim>\<open>str\<close> is the list of its Unicode code points; \<open>ustr\<close> gives the
  \<^verbatim>\<open>str\<close> of a literal of the source.
\<close>

type_synonym pystr = "nat list"

definition ustr :: "string \<Rightarrow> pystr" where
  "ustr cs = map of_char cs"

text \<open>
  \<^verbatim>\<open>str.upper\<close> maps each code point on its own, to one or more code points, and
  concatenates. An ASCII code point is mapped by the rule of ASCII: a small letter to
  its capital, anything else to itself. Every other code point is mapped by the upper
  case table of the Unicode Character Database that the Python runtime carries; the
  table is the parameter \<open>table\<close>, so that what is proved holds for every version of it.
\<close>

definition cp_upper :: "(nat \<Rightarrow> pystr) \<Rightarrow> nat \<Rightarrow> pystr" where
  "cp_upper table c =
     (if c < 128 then [if 97 \<le> c \<and> c \<le> 122 then c - 32 else c] else table c)"

definition str_upper :: "(nat \<Rightarrow> pystr) \<Rightarrow> pystr \<Rightarrow> pystr" where
  "str_upper table s = concat (map (cp_upper table) s)"

subsection \<open>The two IntEnum classes\<close>

datatype BufferCapStyles = Cap_ROUND | Cap_FLAT | Cap_SQUARE

datatype BufferJoinStyles = Join_ROUND | Join_MITRE | Join_BEVEL

text \<open>The \<^verbatim>\<open>.value\<close> and \<^verbatim>\<open>.name\<close> of each member, as the class bodies give them.\<close>

fun cap_value :: "BufferCapStyles \<Rightarrow> int" where
  "cap_value Cap_ROUND = 1"
| "cap_value Cap_FLAT = 2"
| "cap_value Cap_SQUARE = 3"

fun join_value :: "BufferJoinStyles \<Rightarrow> int" where
  "join_value Join_ROUND = 1"
| "join_value Join_MITRE = 2"
| "join_value Join_BEVEL = 3"

fun cap_name :: "BufferCapStyles \<Rightarrow> string" where
  "cap_name Cap_ROUND = ''ROUND''"
| "cap_name Cap_FLAT = ''FLAT''"
| "cap_name Cap_SQUARE = ''SQUARE''"

fun join_name :: "BufferJoinStyles \<Rightarrow> string" where
  "join_name Join_ROUND = ''ROUND''"
| "join_name Join_MITRE = ''MITRE''"
| "join_name Join_BEVEL = ''BEVEL''"

text \<open>
  \<^verbatim>\<open>BufferCapStyles[key]\<close>: the lookup of a member by name in the class's member map;
  a key that is no member name raises KeyError (here \<open>None\<close>).
\<close>

definition BufferCapStyles_getitem :: "pystr \<Rightarrow> BufferCapStyles option" where
  "BufferCapStyles_getitem key =
     map_of [(ustr (cap_name Cap_ROUND), Cap_ROUND), (ustr (cap_name Cap_FLAT), Cap_FLAT),
             (ustr (cap_name Cap_SQUARE), Cap_SQUARE)] key"

definition BufferJoinStyles_getitem :: "pystr \<Rightarrow> BufferJoinStyles option" where
  "BufferJoinStyles_getitem key =
     map_of [(ustr (join_name Join_ROUND), Join_ROUND), (ustr (join_name Join_MITRE), Join_MITRE),
             (ustr (join_name Join_BEVEL), Join_BEVEL)] key"

subsection \<open>Python values and exceptions\<close>

text \<open>
  The values a caller can pass for \<^verbatim>\<open>quadsegs\<close>, \<^verbatim>\<open>cap_style\<close>, \<^verbatim>\<open>join_style\<close>,
  \<^verbatim>\<open>mitre_limit\<close> and \<^verbatim>\<open>single_sided\<close>. A float is the real number it denotes
  (NaN and the infinities are not represented). \<open>PArr\<close> is an array-like value: a
  list or a tuple of values.
\<close>

datatype pyval =
    PNone
  | PBool bool
  | PInt int
  | PFloat real
  | PStr pystr
  | PCap BufferCapStyles
  | PJoin BufferJoinStyles
  | PArr "pyval list"

datatype pyerr =
    KeyError pystr
  | TypeError string
  | ValueError string
  | OverflowError string
  | GEOSException string

text \<open>Sequencing of computations that may raise.\<close>

definition and_then :: "pyerr + 'a \<Rightarrow> ('a \<Rightarrow> pyerr + 'b) \<Rightarrow> pyerr + 'b" where
  "and_then r f = (case r of Inl e \<Rightarrow> Inl e | Inr x \<Rightarrow> f x)"

text \<open>
  \<^verbatim>\<open>numpy.isscalar\<close>: true of Python numbers, booleans and strings (an IntEnum member
  is an \<^verbatim>\<open>int\<close>), false of \<^verbatim>\<open>None\<close> and of every list, tuple and array.
\<close>

fun isscalar :: "pyval \<Rightarrow> bool" where
  "isscalar PNone = False"
| "isscalar (PArr xs) = False"
| "isscalar v = True"

text \<open>
  \<^verbatim>\<open>numpy.intc\<close>, the C \<^verbatim>\<open>int\<close> of 32 bits, read as two's complement with
  \<^const>\<open>sint\<close>. An integer in range is kept, a boolean becomes 0 or 1, a float whose
  truncation is in range is truncated towards zero. What NumPy does with every other
  value (a string, \<^verbatim>\<open>None\<close>, an array, a number out of range) differs between its
  versions and is left to the runtime.

  The runtime \<open>ext\<close> holds what the module takes from outside the repository and the
  source does not fix: the upper case table of Unicode beyond ASCII, and what
  \<^verbatim>\<open>numpy.intc\<close> does with the values named above.
\<close>

type_synonym intc = "32 word"

record python =
  unicode_upper :: "nat \<Rightarrow> pystr"
  intc_other :: "pyval \<Rightarrow> pyerr + intc"

definition in_intc_range :: "int \<Rightarrow> bool" where
  "in_intc_range i \<longleftrightarrow> - (2 ^ 31) \<le> i \<and> i < 2 ^ 31"

definition truncate_real :: "real \<Rightarrow> int" where
  "truncate_real x = (if 0 \<le> x then \<lfloor>x\<rfloor> else \<lceil>x\<rceil>)"

fun np_intc :: "python \<Rightarrow> pyval \<Rightarrow> pyerr + intc" where
  "np_intc ext (PBool b) = Inr (if b then 1 else 0)"
| "np_intc ext (PInt i) =
     (if in_intc_range i then Inr (word_of_int i) else intc_other ext (PInt i))"
| "np_intc ext (PCap m) = Inr (word_of_int (cap_value m))"
| "np_intc ext (PJoin m) = Inr (word_of_int (join_value m))"
| "np_intc ext (PFloat x) =
     (if in_intc_range (truncate_real x) then Inr (word_of_int (truncate_real x))
      else intc_other ext (PFloat x))"
| "np_intc ext v = intc_other ext v"

text \<open>\<^verbatim>\<open>numpy.bool\<close> is the builtin \<^verbatim>\<open>bool\<close>: Python's truth value.\<close>

fun np_bool :: "pyval \<Rightarrow> bool" where
  "np_bool PNone = False"
| "np_bool (PBool b) = b"
| "np_bool (PInt i) = (i \<noteq> 0)"
| "np_bool (PFloat x) = (x \<noteq> 0)"
| "np_bool (PStr s) = (s \<noteq> [])"
| "np_bool (PCap m) = (cap_value m \<noteq> 0)"
| "np_bool (PJoin m) = (join_value m \<noteq> 0)"
| "np_bool (PArr xs) = (xs \<noteq> [])"

section \<open>Geometries and the calls into pygeos.ufuncs\<close>

text \<open>
  Modelled from the spec: the geometry values \<^verbatim>\<open>Empty\<close> and \<^verbatim>\<open>Geometry\<close> that the
  module imports from \<^verbatim>\<open>pygeos.geometry\<close>. A geometry is the distinguished
  \<open>Empty\<close> or an opaque handle of the kernel, of which only its kind is visible.
\<close>

datatype geometry_kind =
    POINT | LINESTRING | LINEARRING | POLYGON
  | MULTIPOINT | MULTILINESTRING | MULTIPOLYGON | GEOMETRYCOLLECTION

datatype 'h geometry = Empty | Geometry geometry_kind 'h

text \<open>An argument that is one value or a one-dimensional array of values.\<close>

datatype 'a arg = Scalar 'a | Array "'a list"

text \<open>
  A call of a function of \<^verbatim>\<open>pygeos.ufuncs\<close> with its evaluated arguments, in the
  order the source passes them. A public function of the module either raises
  before it calls (\<open>Inl\<close>), or makes exactly one such call and returns what it returns.
\<close>

datatype 'h ufunc_call =
    U_boundary "'h geometry arg" "(string \<times> pyval) list"
  | U_buffer "'h geometry arg" "real arg" intc intc intc pyval bool
  | U_centroid "'h geometry arg"
  | U_convex_hull "'h geometry arg"
  | U_delaunay_triangles "'h geometry arg" real bool
  | U_envelope "'h geometry arg"
  | U_extract_unique_points "'h geometry arg"
  | U_point_on_surface "'h geometry arg"
  | U_simplify "'h geometry arg" real
  | U_simplify_preserve_topology "'h geometry arg" real
  | U_snap "'h geometry arg" "'h geometry" real
  | U_voronoi_polygons "'h geometry arg" "'h geometry option" real bool

text \<open>The name of the attribute of \<^verbatim>\<open>ufuncs\<close> that a call invokes.\<close>

fun ufunc_name :: "'h ufunc_call \<Rightarrow> string" where
  "ufunc_name (U_boundary g kw) = ''boundary''"
| "ufunc_name (U_buffer g r q c j m s) = ''buffer''"
| "ufunc_name (U_centroid g) = ''centroid''"
| "ufunc_name (U_convex_hull g) = ''convex_hull''"
| "ufunc_name (U_delaunay_triangles g t e) = ''delaunay_triangles''"
| "ufunc_name (U_envelope g) = ''envelope''"
| "ufunc_name (U_extract_unique_points g) = ''extract_unique_points''"
| "ufunc_name (U_point_on_surface g) = ''point_on_surface''"
| "ufunc_name (U_simplify g t) = ''simplify''"
| "ufunc_name (U_simplify_preserve_topology g t) = ''simplify_preserve_topology''"
| "ufunc_name (U_snap g r t) = ''snap''"
| "ufunc_name (U_voronoi_polygons g e t oe) = ''voronoi_polygons''"

section \<open>The public functions, up to the call they make\<close>

definition boundary_call :: "'h geometry arg \<Rightarrow> (string \<times> pyval) list \<Rightarrow> pyerr + 'h ufunc_call" where
  "boundary_call geometry kwargs = Inr (U_boundary geometry kwargs)"

text \<open>
  Lines 130 to 133 of \<^verbatim>\<open>buffer\<close>: a style given as a string is replaced by the value
  of the member named by its upper-cased form; the failed lookup raises KeyError
  with the key it looked up.
\<close>

definition resolve_cap_style :: "python \<Rightarrow> pyval \<Rightarrow> pyerr + pyval" where
  "resolve_cap_style ext cap_style =
     (case cap_style of
        PStr s \<Rightarrow>
          (case BufferCapStyles_getitem (str_upper (unicode_upper ext) s) of
             None \<Rightarrow> Inl (KeyError (str_upper (unicode_upper ext) s))
           | Some m \<Rightarrow> Inr (PInt (cap_value m)))
      | _ \<Rightarrow> Inr cap_style)"

definition resolve_join_style :: "python \<Rightarrow> pyval \<Rightarrow> pyerr + pyval" where
  "resolve_join_style ext join_style =
     (case join_style of
        PStr s \<Rightarrow>
          (case BufferJoinStyles_getitem (str_upper (unicode_upper ext) s) of
             None \<Rightarrow> Inl (KeyError (str_upper (unicode_upper ext) s))
           | Some m \<Rightarrow> Inr (PInt (join_value m)))
      | _ \<Rightarrow> Inr join_style)"

text \<open>Lines 134 to 143: the five checks, in the order of the source.\<close>

definition scalar_checks :: "pyval \<Rightarrow> pyval \<Rightarrow> pyval \<Rightarrow> pyval \<Rightarrow> pyval \<Rightarrow> pyerr + unit" where
  "scalar_checks quadsegs cap_style join_style mitre_limit single_sided =
     (if \<not> isscalar quadsegs then Inl (TypeError ''quadsegs only accepts scalar values'')
      else if \<not> isscalar cap_style then Inl (TypeError ''cap_style only accepts scalar values'')
      else if \<not> isscalar join_style then Inl (TypeError ''join_style only accepts scalar values'')
      else if \<not> isscalar mitre_limit then Inl (TypeError ''mitre_limit only accepts scalar values'')
      else if \<not> isscalar single_sided then Inl (TypeError ''single_sided only accepts scalar values'')
      else Inr ())"

text \<open>
  \<^verbatim>\<open>buffer\<close> up to its call of \<^verbatim>\<open>ufuncs.buffer\<close> (lines 144 to 152): the arguments
  are evaluated from left to right, so a coercion that raises does so before the call.
\<close>

definition buffer_call ::
  "python \<Rightarrow> 'h geometry arg \<Rightarrow> real arg \<Rightarrow>
   pyval \<Rightarrow> pyval \<Rightarrow> pyval \<Rightarrow> pyval \<Rightarrow> pyval \<Rightarrow> pyerr + 'h ufunc_call" where
  "buffer_call ext geometry radius quadsegs cap_style join_style mitre_limit single_sided =
     and_then (resolve_cap_style ext cap_style) (\<lambda>cap_style.
     and_then (resolve_join_style ext join_style) (\<lambda>join_style.
     and_then (scalar_checks quadsegs cap_style join_style mitre_limit single_sided) (\<lambda>_.
     and_then (np_intc ext quadsegs) (\<lambda>q.
     and_then (np_intc ext cap_style) (\<lambda>c.
     and_then (np_intc ext join_style) (\<lambda>j.
       Inr (U_buffer geometry radius q c j mitre_limit (np_bool single_sided))))))))"

definition centroid_call :: "'h geometry arg \<Rightarrow> pyerr + 'h ufunc_call" where
  "centroid_call geometries = Inr (U_centroid geometries)"

definition convex_hull_call :: "'h geometry arg \<Rightarrow> pyerr + 'h ufunc_call" where
  "convex_hull_call geometries = Inr (U_convex_hull geometries)"

definition delaunay_triangles_call :: "'h geometry arg \<Rightarrow> real \<Rightarrow> bool \<Rightarrow> pyerr + 'h ufunc_call" where
  "delaunay_triangles_call geometry tolerance only_edges =
     Inr (U_delaunay_triangles geometry tolerance only_edges)"

definition envelope_call :: "'h geometry arg \<Rightarrow> pyerr + 'h ufunc_call" where
  "envelope_call geometries = Inr (U_envelope geometries)"

definition extract_unique_points_call :: "'h geometry arg \<Rightarrow> pyerr + 'h ufunc_call" where
  "extract_unique_points_call geometries = Inr (U_extract_unique_points geometries)"

definition point_on_surface_call :: "'h geometry arg \<Rightarrow> pyerr + 'h ufunc_call" where
  "point_on_surface_call geometries = Inr (U_point_on_surface geometries)"

definition simplify_call :: "'h geometry arg \<Rightarrow> real \<Rightarrow> bool \<Rightarrow> pyerr + 'h ufunc_call" where
  "simplify_call geometries tolerance preserve_topology =
     (if preserve_topology then Inr (U_simplify_preserve_topology geometries tolerance)
      else Inr (U_simplify geometries tolerance))"

definition snap_call :: "'h geometry arg \<Rightarrow> 'h geometry \<Rightarrow> real \<Rightarrow> pyerr + 'h ufunc_call" where
  "snap_call geometries reference tolerance = Inr (U_snap geometries reference tolerance)"

definition voronoi_polygons_call ::
  "'h geometry arg \<Rightarrow> 'h geometry option \<Rightarrow> real \<Rightarrow> bool \<Rightarrow> pyerr + 'h ufunc_call" where
  "voronoi_polygons_call geometry envelope tolerance only_edges =
     Inr (U_voronoi_polygons geometry envelope tolerance only_edges)"

section \<open>The compiled module pygeos.ufuncs\<close>

text \<open>
  The geometry algorithms themselves (the GEOS library behind \<^verbatim>\<open>pygeos.ufuncs\<close>) are
  parameters: one function per primitive, from the arguments of one element to a
  geometry or an exception. \<open>geos_boundary_kwargs\<close> stands for a call of
  \<^verbatim>\<open>ufuncs.boundary\<close> with keyword arguments of NumPy's ufunc protocol.
\<close>

record 'h geos =
  geos_boundary :: "'h geometry \<Rightarrow> pyerr + 'h geometry"
  geos_boundary_kwargs :: "'h geometry arg \<Rightarrow> (string \<times> pyval) list \<Rightarrow> pyerr + 'h geometry arg"
  geos_buffer :: "'h geometry \<Rightarrow> real \<Rightarrow> intc \<Rightarrow> intc \<Rightarrow> intc \<Rightarrow> pyval \<Rightarrow> bool \<Rightarrow> pyerr + 'h geometry"
  geos_centroid :: "'h geometry \<Rightarrow> pyerr + 'h geometry"
  geos_convex_hull :: "'h geometry \<Rightarrow> pyerr + 'h geometry"
  geos_delaunay_triangles :: "'h geometry \<Rightarrow> real \<Rightarrow> bool \<Rightarrow> pyerr + 'h geometry"
  geos_envelope :: "'h geometry \<Rightarrow> pyerr + 'h geometry"
  geos_extract_unique_points :: "'h geometry \<Rightarrow> pyerr + 'h geometry"
  geos_point_on_surface :: "'h geometry \<Rightarrow> pyerr + 'h geometry"
  geos_simplify :: "'h geometry \<Rightarrow> real \<Rightarrow> pyerr + 'h geometry"
  geos_simplify_preserve_topology :: "'h geometry \<Rightarrow> real \<Rightarrow> pyerr + 'h geometry"
  geos_snap :: "'h geometry \<Rightarrow> 'h geometry \<Rightarrow> real \<Rightarrow> pyerr + 'h geometry"
  geos_voronoi_polygons :: "'h geometry \<Rightarrow> 'h geometry option \<Rightarrow> real \<Rightarrow> bool \<Rightarrow> pyerr + 'h geometry"

text \<open>A geometry without area: a point, a line, or several of them.\<close>

fun is_point_or_line :: "'h geometry \<Rightarrow> bool" where
  "is_point_or_line Empty = False"
| "is_point_or_line (Geometry k h) = (k \<in> {POINT, MULTIPOINT, LINESTRING, LINEARRING, MULTILINESTRING})"

text \<open>
  Modelled from the spec: what \<^verbatim>\<open>ufuncs.boundary\<close> of the compiled module
  \<^verbatim>\<open>pygeos.ufuncs\<close> computes for one element. The table of operations of the spec
  and the examples of the docstring: Empty for Empty, for a point, a linear ring and a
  multipoint; everything else is the kernel's (which raises for a geometry
  collection).
\<close>

definition ufuncs_boundary_elem :: "'h geos \<Rightarrow> 'h geometry \<Rightarrow> pyerr + 'h geometry" where
  "ufuncs_boundary_elem K g =
     (case g of
        Empty \<Rightarrow> Inr Empty
      | Geometry k h \<Rightarrow>
          if k \<in> {POINT, LINEARRING, MULTIPOINT} then Inr Empty else geos_boundary K g)"

text \<open>
  Modelled from the spec: what \<^verbatim>\<open>ufuncs.buffer\<close> computes for one element. The spec:
  an Empty geometry gives Empty, and a radius that is not positive gives Empty for a
  line or a point; everything else is the kernel's.
\<close>

definition ufuncs_buffer_elem ::
  "'h geos \<Rightarrow> intc \<Rightarrow> intc \<Rightarrow> intc \<Rightarrow> pyval \<Rightarrow> bool \<Rightarrow> 'h geometry \<Rightarrow> real \<Rightarrow> pyerr + 'h geometry" where
  "ufuncs_buffer_elem K quadsegs cap_style join_style mitre_limit single_sided g radius =
     (if g = Empty then Inr Empty
      else if is_point_or_line g \<and> radius \<le> 0 then Inr Empty
      else geos_buffer K g radius quadsegs cap_style join_style mitre_limit single_sided)"

text \<open>
  Modelled from the spec: what \<^verbatim>\<open>ufuncs.centroid\<close> and \<^verbatim>\<open>ufuncs.convex_hull\<close>
  compute for one element: Empty for Empty, everything else is the kernel's.
\<close>

definition ufuncs_centroid_elem :: "'h geos \<Rightarrow> 'h geometry \<Rightarrow> pyerr + 'h geometry" where
  "ufuncs_centroid_elem K g = (if g = Empty then Inr Empty else geos_centroid K g)"

definition ufuncs_convex_hull_elem :: "'h geos \<Rightarrow> 'h geometry \<Rightarrow> pyerr + 'h geometry" where
  "ufuncs_convex_hull_elem K g = (if g = Empty then Inr Empty else geos_convex_hull K g)"

text \<open>
  Modelled from the spec: the element-wise application of a ufunc. The primitive is
  applied to each element in order; the first exception ends the call and no partial
  result is returned; the result has the shape of the input. Two array arguments must
  have the same shape, a scalar argument is used for every element.
\<close>

fun traverse :: "('a \<Rightarrow> pyerr + 'b) \<Rightarrow> 'a list \<Rightarrow> pyerr + 'b list" where
  "traverse f [] = Inr []"
| "traverse f (x # xs) =
     and_then (f x) (\<lambda>y. and_then (traverse f xs) (\<lambda>ys. Inr (y # ys)))"

fun ufunc1 :: "('a \<Rightarrow> pyerr + 'b) \<Rightarrow> 'a arg \<Rightarrow> pyerr + 'b arg" where
  "ufunc1 f (Scalar x) = and_then (f x) (\<lambda>y. Inr (Scalar y))"
| "ufunc1 f (Array xs) = and_then (traverse f xs) (\<lambda>ys. Inr (Array ys))"

fun ufunc2 :: "('a \<Rightarrow> 'b \<Rightarrow> pyerr + 'c) \<Rightarrow> 'a arg \<Rightarrow> 'b arg \<Rightarrow> pyerr + 'c arg" where
  "ufunc2 f (Scalar x) (Scalar y) = and_then (f x y) (\<lambda>z. Inr (Scalar z))"
| "ufunc2 f (Array xs) (Scalar y) = and_then (traverse (\<lambda>x. f x y) xs) (\<lambda>zs. Inr (Array zs))"
| "ufunc2 f (Scalar x) (Array ys) = and_then (traverse (\<lambda>y. f x y) ys) (\<lambda>zs. Inr (Array zs))"
| "ufunc2 f (Array xs) (Array ys) =
     (if length xs = length ys
      then and_then (traverse (\<lambda>(x, y). f x y) (zip xs ys)) (\<lambda>zs. Inr (Array zs))
      else Inl (ValueError ''operands could not be broadcast together''))"

text \<open>
  Modelled from the spec: what a call of a function of \<^verbatim>\<open>pygeos.ufuncs\<close> returns, the
  primitive of that name applied element-wise over the geometries (and the radii, for
  \<^verbatim>\<open>buffer\<close>), with the other arguments the same for every element.
\<close>

fun run :: "'h geos \<Rightarrow> 'h ufunc_call \<Rightarrow> pyerr + 'h geometry arg" where
  "run K (U_boundary g kw) =
     (if kw = [] then ufunc1 (ufuncs_boundary_elem K) g else geos_boundary_kwargs K g kw)"
| "run K (U_buffer g r q c j m s) = ufunc2 (ufuncs_buffer_elem K q c j m s) g r"
| "run K (U_centroid g) = ufunc1 (ufuncs_centroid_elem K) g"
| "run K (U_convex_hull g) = ufunc1 (ufuncs_convex_hull_elem K) g"
| "run K (U_delaunay_triangles g t e) = ufunc1 (\<lambda>x. geos_delaunay_triangles K x t e) g"
| "run K (U_envelope g) = ufunc1 (geos_envelope K) g"
| "run K (U_extract_unique_points g) = ufunc1 (geos_extract_unique_points K) g"
| "run K (U_point_on_surface g) = ufunc1 (geos_point_on_surface K) g"
| "run K (U_simplify g t) = ufunc1 (\<lambda>x. geos_simplify K x t) g"
| "run K (U_simplify_preserve_topology g t) = ufunc1 (\<lambda>x. geos_simplify_preserve_topology K x t) g"
| "run K (U_snap g r t) = ufunc1 (\<lambda>x. geos_snap K x r t) g"
| "run K (U_voronoi_polygons g e t oe) = ufunc1 (\<lambda>x. geos_voronoi_polygons K x e t oe) g"

section \<open>The public functions\<close>

definition boundary :: "'h geos \<Rightarrow> 'h geometry arg \<Rightarrow> (string \<times> pyval) list \<Rightarrow> pyerr + 'h geometry arg" where
  "boundary K geometry kwargs = and_then (boundary_call geometry kwargs) (run K)"

definition buffer ::
  "python \<Rightarrow> 'h geos \<Rightarrow> 'h geometry arg \<Rightarrow> real arg \<Rightarrow>
   pyval \<Rightarrow> pyval \<Rightarrow> pyval \<Rightarrow> pyval \<Rightarrow> pyval \<Rightarrow> pyerr + 'h geometry arg" where
  "buffer ext K geometry radius quadsegs cap_style join_style mitre_limit single_sided =
     and_then
       (buffer_call ext geometry radius quadsegs cap_style join_style mitre_limit single_sided)
       (run K)"

text \<open>\<^verbatim>\<open>buffer(geometry, radius)\<close> with the defaults of the signature.\<close>

definition buffer_default ::
  "python \<Rightarrow> 'h geos \<Rightarrow> 'h geometry arg \<Rightarrow> real arg \<Rightarrow> pyerr + 'h geometry arg" where
  "buffer_default ext K geometry radius =
     buffer ext K geometry radius (PInt 8) (PStr (ustr ''round'')) (PStr (ustr ''round''))
       (PFloat 5) (PBool False)"

definition centroid :: "'h geos \<Rightarrow> 'h geometry arg \<Rightarrow> pyerr + 'h geometry arg" where
  "centroid K geometries = and_then (centroid_call geometries) (run K)"

definition convex_hull :: "'h geos \<Rightarrow> 'h geometry arg \<Rightarrow> pyerr + 'h geometry arg" where
  "convex_hull K geometries = and_then (convex_hull_call geometries) (run K)"

definition delaunay_triangles :: "'h geos \<Rightarrow> 'h geometry arg \<Rightarrow> real \<Rightarrow> bool \<Rightarrow> pyerr + 'h geometry arg" where
  "delaunay_triangles K geometry tolerance only_edges =
     and_then (delaunay_triangles_call geometry tolerance only_edges) (run K)"

definition envelope :: "'h geos \<Rightarrow> 'h geometry arg \<Rightarrow> pyerr + 'h geometry arg" where
  "envelope K geometries = and_then (envelope_call geometries) (run K)"

definition extract_unique_points :: "'h geos \<Rightarrow> 'h geometry arg \<Rightarrow> pyerr + 'h geometry arg" where
  "extract_unique_points K geometries = and_then (extract_unique_points_call geometries) (run K)"

definition point_on_surface :: "'h geos \<Rightarrow> 'h geometry arg \<Rightarrow> pyerr + 'h geometry arg" where
  "point_on_surface K geometries = and_then (point_on_surface_call geometries) (run K)"

definition simplify :: "'h geos \<Rightarrow> 'h geometry arg \<Rightarrow> real \<Rightarrow> bool \<Rightarrow> pyerr + 'h geometry arg" where
  "simplify K geometries tolerance preserve_topology =
     and_then (simplify_call geometries tolerance preserve_topology) (run K)"

definition snap :: "'h geos \<Rightarrow> 'h geometry arg \<Rightarrow> 'h geometry \<Rightarrow> real \<Rightarrow> pyerr + 'h geometry arg" where
  "snap K geometries reference tolerance = and_then (snap_call geometries reference tolerance) (run K)"

definition voronoi_polygons ::
  "'h geos \<Rightarrow> 'h geometry arg \<Rightarrow> 'h geometry option \<Rightarrow> real \<Rightarrow> bool \<Rightarrow> pyerr + 'h geometry arg" where
  "voronoi_polygons K geometry envelope' tolerance only_edges =
     and_then (voronoi_polygons_call geometry envelope' tolerance only_edges) (run K)"

section \<open>Notions of the specification\<close>

text \<open>
  Two strings are the same up to the case of the ASCII letters when their forms with
  the capitals A to Z turned into small letters are equal (said without
  \<^const>\<open>str_upper\<close>).
\<close>

definition cp_lower :: "nat \<Rightarrow> nat" where
  "cp_lower c = (if 65 \<le> c \<and> c \<le> 90 then c + 32 else c)"

definition same_ignoring_case :: "pystr \<Rightarrow> pystr \<Rightarrow> bool" where
  "same_ignoring_case s t \<longleftrightarrow> map cp_lower s = map cp_lower t"

text \<open>
  Case-insensitive comparison of any string with a name, as Python programs write it:
  the upper-cased forms are equal. A string is a recognised style name when it matches
  the name of a member in this way.
\<close>

definition matches_name :: "(nat \<Rightarrow> pystr) \<Rightarrow> pystr \<Rightarrow> string \<Rightarrow> bool" where
  "matches_name table s name \<longleftrightarrow> str_upper table s = str_upper table (ustr name)"

definition recognised_cap_name :: "python \<Rightarrow> pystr \<Rightarrow> bool" where
  "recognised_cap_name ext s \<longleftrightarrow>
     list_ex (\<lambda>m. matches_name (unicode_upper ext) s (cap_name m))
       [Cap_ROUND, Cap_FLAT, Cap_SQUARE]"

definition recognised_join_name :: "python \<Rightarrow> pystr \<Rightarrow> bool" where
  "recognised_join_name ext s \<longleftrightarrow>
     list_ex (\<lambda>m. matches_name (unicode_upper ext) s (join_name m))
       [Join_ROUND, Join_MITRE, Join_BEVEL]"

text \<open>A style argument that is a string and names no member.\<close>

definition unrecognised_cap :: "python \<Rightarrow> pyval \<Rightarrow> bool" where
  "unrecognised_cap ext v = (case v of PStr s \<Rightarrow> \<not> recognised_cap_name ext s | _ \<Rightarrow> False)"

definition unrecognised_join :: "python \<Rightarrow> pyval \<Rightarrow> bool" where
  "unrecognised_join ext v = (case v of PStr s \<Rightarrow> \<not> recognised_join_name ext s | _ \<Rightarrow> False)"

text \<open>The five scalar-only parameters of \<^verbatim>\<open>buffer\<close> by name, in the order of the signature.\<close>

definition scalar_only_params ::
  "pyval \<Rightarrow> pyval \<Rightarrow> pyval \<Rightarrow> pyval \<Rightarrow> pyval \<Rightarrow> (string \<times> pyval) list" where
  "scalar_only_params quadsegs cap_style join_style mitre_limit single_sided =
     [(''quadsegs'', quadsegs), (''cap_style'', cap_style), (''join_style'', join_style),
      (''mitre_limit'', mitre_limit), (''single_sided'', single_sided)]"

definition first_array_param :: "(string \<times> pyval) list \<Rightarrow> string option" where
  "first_array_param ps = map_option fst (find (\<lambda>(p, v). \<not> isscalar v) ps)"

text \<open>Which exception, if any, a result is.\<close>

fun is_TypeError :: "pyerr + 'a \<Rightarrow> bool" where
  "is_TypeError (Inl (TypeError msg)) = True"
| "is_TypeError r = False"

fun is_KeyError :: "pyerr + 'a \<Rightarrow> bool" where
  "is_KeyError (Inl (KeyError k)) = True"
| "is_KeyError r = False"

text \<open>
  The integer a scalar denotes exactly, if it denotes one: the value that a coercion
  to an integer type has to preserve.
\<close>

fun exact_int :: "pyval \<Rightarrow> int option" where
  "exact_int (PBool b) = Some (if b then 1 else 0)"
| "exact_int (PInt i) = Some i"
| "exact_int (PFloat x) = (if of_int \<lfloor>x\<rfloor> = x then Some \<lfloor>x\<rfloor> else None)"
| "exact_int (PCap m) = Some (cap_value m)"
| "exact_int (PJoin m) = Some (join_value m)"
| "exact_int v = None"

text \<open>The boolean a scalar denotes exactly, if it denotes one: a boolean, or 0 or 1.\<close>

fun exact_bool :: "pyval \<Rightarrow> bool option" where
  "exact_bool (PBool b) = Some b"
| "exact_bool (PInt i) = (if i = 0 then Some False else if i = 1 then Some True else None)"
| "exact_bool (PFloat x) = (if x = 0 then Some False else if x = 1 then Some True else None)"
| "exact_bool v = None"

text \<open>
  An element-wise operation of the module together with its scalar parameters, and
  its application to a geometry or an array of geometries.
\<close>

datatype 'h operation =
    Op_boundary
  | Op_buffer real pyval pyval pyval pyval pyval
  | Op_centroid
  | Op_convex_hull
  | Op_delaunay_triangles real bool
  | Op_envelope
  | Op_extract_unique_points
  | Op_point_on_surface
  | Op_simplify real bool
  | Op_snap "'h geometry" real
  | Op_voronoi_polygons "'h geometry option" real bool

fun apply_op ::
  "python \<Rightarrow> 'h geos \<Rightarrow> 'h operation \<Rightarrow> 'h geometry arg \<Rightarrow> pyerr + 'h geometry arg" where
  "apply_op ext K Op_boundary A = boundary K A []"
| "apply_op ext K (Op_buffer r q c j m s) A = buffer ext K A (Scalar r) q c j m s"
| "apply_op ext K Op_centroid A = centroid K A"
| "apply_op ext K Op_convex_hull A = convex_hull K A"
| "apply_op ext K (Op_delaunay_triangles t e) A = delaunay_triangles K A t e"
| "apply_op ext K Op_envelope A = envelope K A"
| "apply_op ext K Op_extract_unique_points A = extract_unique_points K A"
| "apply_op ext K Op_point_on_surface A = point_on_surface K A"
| "apply_op ext K (Op_simplify t p) A = simplify K A t p"
| "apply_op ext K (Op_snap ref t) A = snap K A ref t"
| "apply_op ext K (Op_voronoi_polygons env t e) A = voronoi_polygons K A env t e"

subsection \<open>Concrete inputs for the examples\<close>

text \<open>
  A runtime for the examples. Its upper case table is an excerpt of the table of
  Unicode: the letters of Latin-1 and three letters whose upper case is ASCII (dotless
  i, long s and the ligature fl); every other code point it leaves as it is, which the
  full table does not, so the examples use no other code point beyond ASCII. Its
  \<^verbatim>\<open>numpy.intc\<close> raises for every value \<^const>\<open>np_intc\<close> leaves open.
\<close>

definition unicode_upper_excerpt :: "nat \<Rightarrow> pystr" where
  "unicode_upper_excerpt c =
     (if c = 181 then [924]
      else if c = 223 then [83, 83]
      else if 224 \<le> c \<and> c \<le> 254 \<and> c \<noteq> 247 then [c - 32]
      else if c = 255 then [376]
      else if c = 305 then [73]
      else if c = 383 then [83]
      else if c = 64258 then [70, 76]
      else [c])"

definition toy_python :: python where
  "toy_python =
     \<lparr> unicode_upper = unicode_upper_excerpt,
       intc_other = (\<lambda>v. Inl (ValueError ''cannot convert to intc'')) \<rparr>"

text \<open>
  A kernel over handles that are numbers: \<^verbatim>\<open>simplify\<close> replaces the handle by 0,
  \<^verbatim>\<open>boundary\<close> raises for a geometry collection, every other primitive returns
  its first argument.
\<close>

definition toy_geos :: "nat geos" where
  "toy_geos =
     \<lparr> geos_boundary = (\<lambda>g. case g of
          Geometry GEOMETRYCOLLECTION h \<Rightarrow> Inl (GEOSException ''geometry collection'')
        | _ \<Rightarrow> Inr g),
       geos_boundary_kwargs = (\<lambda>g kw. Inr g),
       geos_buffer = (\<lambda>g r q c j m s. Inr g),
       geos_centroid = (\<lambda>g. Inr g),
       geos_convex_hull = (\<lambda>g. Inr g),
       geos_delaunay_triangles = (\<lambda>g t e. Inr g),
       geos_envelope = (\<lambda>g. Inr g),
       geos_extract_unique_points = (\<lambda>g. Inr g),
       geos_point_on_surface = (\<lambda>g. Inr g),
       geos_simplify = (\<lambda>g t. case g of Empty \<Rightarrow> Inr Empty | Geometry k h \<Rightarrow> Inr (Geometry k 0)),
       geos_simplify_preserve_topology = (\<lambda>g t. Inr g),
       geos_snap = (\<lambda>g r t. Inr g),
       geos_voronoi_polygons = (\<lambda>g e t oe. Inr g) \<rparr>"

section \<open>Lemmas\<close>

subsection \<open>Case mapping\<close>

lemma cp_upper_of_casing:
  assumes "65 \<le> d \<and> d \<le> 90" and "cp_lower c = cp_lower d"
  shows "cp_upper table c = [d]"
proof -
  have "c = d \<or> c = d + 32"
    using assms by (auto simp: cp_lower_def split: if_splits)
  then show ?thesis
    using assms(1) by (auto simp: cp_upper_def)
qed

lemma str_upper_of_casing:
  "list_all (\<lambda>d. 65 \<le> d \<and> d \<le> 90) t \<Longrightarrow> same_ignoring_case s t \<Longrightarrow> str_upper table s = t"
proof (induction s arbitrary: t)
  case Nil
  then show ?case by (simp add: same_ignoring_case_def str_upper_def)
next
  case (Cons c s)
  then obtain d t' where t: "t = d # t'"
    by (cases t) (auto simp: same_ignoring_case_def)
  with Cons.prems have d: "65 \<le> d \<and> d \<le> 90" "cp_lower c = cp_lower d"
    and t': "list_all (\<lambda>d. 65 \<le> d \<and> d \<le> 90) t'" "same_ignoring_case s t'"
    by (simp_all add: same_ignoring_case_def)
  have "str_upper table s = t'"
    using t' by (rule Cons.IH)
  then show ?case
    using cp_upper_of_casing [OF d] t by (simp add: str_upper_def)
qed

lemma same_ignoring_case_refl: "same_ignoring_case s s"
  by (simp add: same_ignoring_case_def)

lemma cap_name_capitals: "list_all (\<lambda>d. 65 \<le> d \<and> d \<le> 90) (ustr (cap_name m))"
  by (cases m) (simp_all add: ustr_def)

lemma join_name_capitals: "list_all (\<lambda>d. 65 \<le> d \<and> d \<le> 90) (ustr (join_name m))"
  by (cases m) (simp_all add: ustr_def)

lemma str_upper_cap_name: "str_upper table (ustr (cap_name m)) = ustr (cap_name m)"
  using cap_name_capitals same_ignoring_case_refl by (rule str_upper_of_casing)

lemma str_upper_join_name: "str_upper table (ustr (join_name m)) = ustr (join_name m)"
  using join_name_capitals same_ignoring_case_refl by (rule str_upper_of_casing)

lemma same_ignoring_case_cap_matches:
  "same_ignoring_case s (ustr (cap_name m)) \<Longrightarrow> matches_name table s (cap_name m)"
  by (simp add: matches_name_def str_upper_cap_name str_upper_of_casing [OF cap_name_capitals])

lemma same_ignoring_case_join_matches:
  "same_ignoring_case s (ustr (join_name m)) \<Longrightarrow> matches_name table s (join_name m)"
  by (simp add: matches_name_def str_upper_join_name str_upper_of_casing [OF join_name_capitals])

subsection \<open>Lookup of members by name\<close>

lemma cap_getitem_Some: "BufferCapStyles_getitem k = Some m \<longleftrightarrow> k = ustr (cap_name m)"
  by (cases m) (auto simp: BufferCapStyles_getitem_def ustr_def)

lemma join_getitem_Some: "BufferJoinStyles_getitem k = Some m \<longleftrightarrow> k = ustr (join_name m)"
  by (cases m) (auto simp: BufferJoinStyles_getitem_def ustr_def)

lemma cap_getitem_upper_Some:
  "BufferCapStyles_getitem (str_upper table s) = Some m \<longleftrightarrow> matches_name table s (cap_name m)"
  by (simp add: cap_getitem_Some matches_name_def str_upper_cap_name)

lemma join_getitem_upper_Some:
  "BufferJoinStyles_getitem (str_upper table s) = Some m \<longleftrightarrow> matches_name table s (join_name m)"
  by (simp add: join_getitem_Some matches_name_def str_upper_join_name)

lemma recognised_cap_name_iff:
  "recognised_cap_name ext s \<longleftrightarrow> (\<exists>m. matches_name (unicode_upper ext) s (cap_name m))"
proof
  assume "recognised_cap_name ext s"
  then show "\<exists>m. matches_name (unicode_upper ext) s (cap_name m)"
    by (auto simp: recognised_cap_name_def simp del: cap_name.simps)
next
  assume "\<exists>m. matches_name (unicode_upper ext) s (cap_name m)"
  then obtain m where "matches_name (unicode_upper ext) s (cap_name m)" ..
  then show "recognised_cap_name ext s"
    by (cases m) (simp_all add: recognised_cap_name_def)
qed

lemma recognised_join_name_iff:
  "recognised_join_name ext s \<longleftrightarrow> (\<exists>m. matches_name (unicode_upper ext) s (join_name m))"
proof
  assume "recognised_join_name ext s"
  then show "\<exists>m. matches_name (unicode_upper ext) s (join_name m)"
    by (auto simp: recognised_join_name_def simp del: join_name.simps)
next
  assume "\<exists>m. matches_name (unicode_upper ext) s (join_name m)"
  then obtain m where "matches_name (unicode_upper ext) s (join_name m)" ..
  then show "recognised_join_name ext s"
    by (cases m) (simp_all add: recognised_join_name_def)
qed

lemma cap_getitem_upper_None:
  "BufferCapStyles_getitem (str_upper (unicode_upper ext) s) = None \<longleftrightarrow> \<not> recognised_cap_name ext s"
proof -
  have "BufferCapStyles_getitem (str_upper (unicode_upper ext) s) = None \<longleftrightarrow>
        (\<forall>m. BufferCapStyles_getitem (str_upper (unicode_upper ext) s) \<noteq> Some m)"
    by auto
  then show ?thesis
    by (simp add: cap_getitem_upper_Some recognised_cap_name_iff)
qed

lemma join_getitem_upper_None:
  "BufferJoinStyles_getitem (str_upper (unicode_upper ext) s) = None \<longleftrightarrow> \<not> recognised_join_name ext s"
proof -
  have "BufferJoinStyles_getitem (str_upper (unicode_upper ext) s) = None \<longleftrightarrow>
        (\<forall>m. BufferJoinStyles_getitem (str_upper (unicode_upper ext) s) \<noteq> Some m)"
    by auto
  then show ?thesis
    by (simp add: join_getitem_upper_Some recognised_join_name_iff)
qed

subsection \<open>Resolution of style names\<close>

lemma resolve_cap_style_matches:
  "matches_name (unicode_upper ext) s (cap_name m) \<Longrightarrow>
   resolve_cap_style ext (PStr s) = Inr (PInt (cap_value m))"
  using cap_getitem_upper_Some [of "unicode_upper ext" s m] by (simp add: resolve_cap_style_def)

lemma resolve_join_style_matches:
  "matches_name (unicode_upper ext) s (join_name m) \<Longrightarrow>
   resolve_join_style ext (PStr s) = Inr (PInt (join_value m))"
  using join_getitem_upper_Some [of "unicode_upper ext" s m] by (simp add: resolve_join_style_def)

lemma resolve_cap_style_name:
  "same_ignoring_case s (ustr (cap_name m)) \<Longrightarrow>
   resolve_cap_style ext (PStr s) = Inr (PInt (cap_value m))"
  by (rule resolve_cap_style_matches) (rule same_ignoring_case_cap_matches)

lemma resolve_join_style_name:
  "same_ignoring_case s (ustr (join_name m)) \<Longrightarrow>
   resolve_join_style ext (PStr s) = Inr (PInt (join_value m))"
  by (rule resolve_join_style_matches) (rule same_ignoring_case_join_matches)

lemma resolve_cap_style_unrecognised:
  "\<not> recognised_cap_name ext s \<Longrightarrow>
   resolve_cap_style ext (PStr s) = Inl (KeyError (str_upper (unicode_upper ext) s))"
  using cap_getitem_upper_None [of ext s] by (simp add: resolve_cap_style_def)

lemma resolve_join_style_unrecognised:
  "\<not> recognised_join_name ext s \<Longrightarrow>
   resolve_join_style ext (PStr s) = Inl (KeyError (str_upper (unicode_upper ext) s))"
  using join_getitem_upper_None [of ext s] by (simp add: resolve_join_style_def)

lemma resolve_cap_style_Inr_iff:
  "(\<exists>v'. resolve_cap_style ext v = Inr v') \<longleftrightarrow> \<not> unrecognised_cap ext v"
proof (cases v)
  case (PStr s)
  show ?thesis
  proof (cases "recognised_cap_name ext s")
    case True
    then obtain m where "matches_name (unicode_upper ext) s (cap_name m)"
      by (auto simp: recognised_cap_name_iff)
    then show ?thesis using PStr True
      by (simp add: resolve_cap_style_matches unrecognised_cap_def)
  next
    case False
    then show ?thesis using PStr
      by (simp add: resolve_cap_style_unrecognised unrecognised_cap_def)
  qed
qed (simp_all add: resolve_cap_style_def unrecognised_cap_def)

lemma resolve_join_style_Inr_iff:
  "(\<exists>v'. resolve_join_style ext v = Inr v') \<longleftrightarrow> \<not> unrecognised_join ext v"
proof (cases v)
  case (PStr s)
  show ?thesis
  proof (cases "recognised_join_name ext s")
    case True
    then obtain m where "matches_name (unicode_upper ext) s (join_name m)"
      by (auto simp: recognised_join_name_iff)
    then show ?thesis using PStr True
      by (simp add: resolve_join_style_matches unrecognised_join_def)
  next
    case False
    then show ?thesis using PStr
      by (simp add: resolve_join_style_unrecognised unrecognised_join_def)
  qed
qed (simp_all add: resolve_join_style_def unrecognised_join_def)

lemma resolve_cap_style_isscalar:
  "resolve_cap_style ext v = Inr v' \<Longrightarrow> isscalar v' = isscalar v"
  by (cases v) (auto simp: resolve_cap_style_def split: option.splits)

lemma resolve_join_style_isscalar:
  "resolve_join_style ext v = Inr v' \<Longrightarrow> isscalar v' = isscalar v"
  by (cases v) (auto simp: resolve_join_style_def split: option.splits)

subsection \<open>The checks of buffer\<close>

lemma buffer_call_cap_error:
  "resolve_cap_style ext c = Inl e \<Longrightarrow> buffer_call ext g r q c j ml ss = Inl e"
  by (simp add: buffer_call_def and_then_def)

lemma buffer_call_join_error:
  "resolve_cap_style ext c = Inr c' \<Longrightarrow> resolve_join_style ext j = Inl e \<Longrightarrow>
   buffer_call ext g r q c j ml ss = Inl e"
  by (simp add: buffer_call_def and_then_def)

lemma scalar_checks_isscalar_cong:
  "isscalar c' = isscalar c \<Longrightarrow> isscalar j' = isscalar j \<Longrightarrow>
   scalar_checks q c' j' ml ss = scalar_checks q c j ml ss"
  by (simp add: scalar_checks_def)

lemma buffer_call_resolved:
  assumes "resolve_cap_style ext c = Inr c'" and "resolve_join_style ext j = Inr j'"
  shows "buffer_call ext g r q c j ml ss =
     and_then (scalar_checks q c j ml ss) (\<lambda>_.
     and_then (np_intc ext q) (\<lambda>qw.
     and_then (np_intc ext c') (\<lambda>cw.
     and_then (np_intc ext j') (\<lambda>jw.
       Inr (U_buffer g r qw cw jw ml (np_bool ss))))))"
  using assms scalar_checks_isscalar_cong [OF resolve_cap_style_isscalar resolve_join_style_isscalar, OF assms]
  by (simp add: buffer_call_def and_then_def)

lemma scalar_checks_first_array:
  "first_array_param (scalar_only_params q c j ml ss) = Some p \<Longrightarrow>
   scalar_checks q c j ml ss = Inl (TypeError (p @ '' only accepts scalar values''))"
  by (auto simp: first_array_param_def scalar_only_params_def scalar_checks_def split: if_splits)

lemma first_array_param_Some:
  "first_array_param ps = Some p \<Longrightarrow> \<exists>v. (p, v) \<in> set ps \<and> \<not> isscalar v"
  by (induction ps) (auto simp: first_array_param_def split: if_splits)

lemma first_array_param_exists:
  "(p, v) \<in> set ps \<Longrightarrow> \<not> isscalar v \<Longrightarrow> \<exists>p'. first_array_param ps = Some p'"
  by (induction ps) (auto simp: first_array_param_def split: if_splits)

lemma buffer_call_first_array:
  assumes "resolve_cap_style ext c = Inr c'" and "resolve_join_style ext j = Inr j'"
    and "first_array_param (scalar_only_params q c j ml ss) = Some p"
  shows "buffer_call ext g r q c j ml ss = Inl (TypeError (p @ '' only accepts scalar values''))"
  by (simp add: buffer_call_resolved [OF assms(1,2)] scalar_checks_first_array [OF assms(3)] and_then_def)

lemma buffer_of_call_error:
  "buffer_call ext g r q c j ml ss = Inl e \<Longrightarrow> buffer ext K g r q c j ml ss = Inl e"
  by (simp add: buffer_def and_then_def)

lemma buffer_of_call_eq:
  "buffer_call ext g r q c j ml ss = buffer_call ext g r q' c' j' ml' ss' \<Longrightarrow>
   buffer ext K g r q c j ml ss = buffer ext K g r q' c' j' ml' ss'"
  by (simp add: buffer_def)

lemma buffer_call_cap_cong:
  "resolve_cap_style ext c1 = resolve_cap_style ext c2 \<Longrightarrow>
   buffer_call ext g r q c1 j ml ss = buffer_call ext g r q c2 j ml ss"
  by (simp add: buffer_call_def)

lemma buffer_call_join_cong:
  "resolve_join_style ext j1 = resolve_join_style ext j2 \<Longrightarrow>
   buffer_call ext g r q c j1 ml ss = buffer_call ext g r q c j2 ml ss"
  by (simp add: buffer_call_def)

lemma lowercase_names:
  "same_ignoring_case (ustr ''round'') (ustr ''ROUND'')"
  "same_ignoring_case (ustr ''flat'') (ustr ''FLAT'')"
  "same_ignoring_case (ustr ''square'') (ustr ''SQUARE'')"
  "same_ignoring_case (ustr ''mitre'') (ustr ''MITRE'')"
  "same_ignoring_case (ustr ''bevel'') (ustr ''BEVEL'')"
  by (simp_all add: same_ignoring_case_def ustr_def cp_lower_def)

lemma resolve_cap_style_lowercase:
  "resolve_cap_style ext (PStr (ustr ''round'')) = Inr (PInt 1)"
  "resolve_cap_style ext (PStr (ustr ''flat'')) = Inr (PInt 2)"
  "resolve_cap_style ext (PStr (ustr ''square'')) = Inr (PInt 3)"
  using resolve_cap_style_name [of "ustr ''round''" Cap_ROUND ext]
    resolve_cap_style_name [of "ustr ''flat''" Cap_FLAT ext]
    resolve_cap_style_name [of "ustr ''square''" Cap_SQUARE ext]
  by (simp_all add: lowercase_names)

lemma resolve_join_style_lowercase:
  "resolve_join_style ext (PStr (ustr ''round'')) = Inr (PInt 1)"
  "resolve_join_style ext (PStr (ustr ''mitre'')) = Inr (PInt 2)"
  "resolve_join_style ext (PStr (ustr ''bevel'')) = Inr (PInt 3)"
  using resolve_join_style_name [of "ustr ''round''" Join_ROUND ext]
    resolve_join_style_name [of "ustr ''mitre''" Join_MITRE ext]
    resolve_join_style_name [of "ustr ''bevel''" Join_BEVEL ext]
  by (simp_all add: lowercase_names)

lemma resolve_style_int:
  "resolve_cap_style ext (PInt i) = Inr (PInt i)"
  "resolve_join_style ext (PInt i) = Inr (PInt i)"
  by (simp_all add: resolve_cap_style_def resolve_join_style_def)

subsection \<open>Evaluations on the concrete inputs\<close>

lemma toy_buffer_flat:
  "buffer toy_python toy_geos (Scalar (Geometry LINESTRING 7)) (Scalar 2) (PInt 8)
     (PInt 2) (PInt 1) (PFloat 5) (PBool False) = Inr (Scalar (Geometry LINESTRING 7))"
  by (simp add: buffer_def buffer_call_def and_then_def resolve_style_int scalar_checks_def
      in_intc_range_def ufuncs_buffer_elem_def toy_geos_def)

lemma casings_of_round:
  "same_ignoring_case (ustr ''ROUND'') (ustr ''ROUND'')"
  "same_ignoring_case (ustr ''Round'') (ustr ''ROUND'')"
  "same_ignoring_case (ustr ''round'') (ustr ''ROUND'')"
  "same_ignoring_case (ustr ''mItRe'') (ustr ''MITRE'')"
  "same_ignoring_case (ustr ''MITRE'') (ustr ''MITRE'')"
  by (simp_all add: same_ignoring_case_def ustr_def cp_lower_def)

lemma unrecognised_hexagon:
  "\<not> recognised_cap_name ext (ustr ''hexagon'')"
  "str_upper table (ustr ''hexagon'') = ustr ''HEXAGON''"
  "\<not> recognised_join_name ext (ustr ''hexagon'')"
  by (simp_all add: recognised_cap_name_def recognised_join_name_def matches_name_def
      str_upper_def cp_upper_def ustr_def)

text \<open>
  Strings beyond ASCII, with the excerpt of the Unicode table: \<^verbatim>\<open>e\<close> with acute and
  sharp s are upper-cased as Python does, and the strings with a dotless i for
  \<^verbatim>\<open>mitre\<close> and with the ligature fl for \<^verbatim>\<open>flat\<close> are accepted as the names
  they upper-case to.
\<close>

lemma upper_beyond_ascii:
  "str_upper unicode_upper_excerpt [233] = [201]"
  "str_upper unicode_upper_excerpt [115, 116, 114, 97, 223, 101] = ustr ''STRASSE''"
  "str_upper unicode_upper_excerpt [109, 305, 116, 114, 101] = ustr ''MITRE''"
  "str_upper unicode_upper_excerpt [64258, 97, 116] = ustr ''FLAT''"
  by (simp_all add: str_upper_def cp_upper_def unicode_upper_excerpt_def ustr_def)

lemma resolve_beyond_ascii:
  "resolve_join_style toy_python (PStr [109, 305, 116, 114, 101]) = Inr (PInt 2)"
  "resolve_cap_style toy_python (PStr [64258, 97, 116]) = Inr (PInt 2)"
  "resolve_cap_style toy_python (PStr [233]) = Inl (KeyError [201])"
  "\<not> recognised_cap_name toy_python [233]"
  by (simp_all add: resolve_join_style_def resolve_cap_style_def BufferJoinStyles_getitem_def
      BufferCapStyles_getitem_def recognised_cap_name_def matches_name_def toy_python_def
      str_upper_def cp_upper_def unicode_upper_excerpt_def ustr_def)

lemma unrecognised_cap_resolve:
  "unrecognised_cap ext c \<Longrightarrow> \<exists>s. c = PStr s \<and> resolve_cap_style ext c = Inl (KeyError (str_upper (unicode_upper ext) s))"
  by (cases c) (simp_all add: unrecognised_cap_def resolve_cap_style_unrecognised)

lemma unrecognised_join_resolve:
  "unrecognised_join ext j \<Longrightarrow> \<exists>s. j = PStr s \<and> resolve_join_style ext j = Inl (KeyError (str_upper (unicode_upper ext) s))"
  by (cases j) (simp_all add: unrecognised_join_def resolve_join_style_unrecognised)

lemma buffer_call_unrecognised:
  assumes "unrecognised_cap ext c \<or> unrecognised_join ext j"
  shows "is_KeyError (buffer_call ext g r q c j ml ss)"
proof (cases "unrecognised_cap ext c")
  case True
  then obtain s where "resolve_cap_style ext c = Inl (KeyError (str_upper (unicode_upper ext) s))"
    using unrecognised_cap_resolve by blast
  then show ?thesis
    by (simp add: buffer_call_cap_error)
next
  case False
  then obtain c' where c': "resolve_cap_style ext c = Inr c'"
    using resolve_cap_style_Inr_iff by blast
  from False assms have "unrecognised_join ext j" by simp
  then obtain s where "resolve_join_style ext j = Inl (KeyError (str_upper (unicode_upper ext) s))"
    using unrecognised_join_resolve by blast
  then show ?thesis
    by (simp add: buffer_call_join_error [OF c'])
qed


lemma is_KeyError_buffer:
  "is_KeyError (buffer_call ext g r q c j ml ss) \<Longrightarrow> is_KeyError (buffer ext K g r q c j ml ss)"
proof -
  assume "is_KeyError (buffer_call ext g r q c j ml ss)"
  then obtain k where "buffer_call ext g r q c j ml ss = Inl (KeyError k)"
    by (rule is_KeyError.elims(2))
  then show ?thesis
    by (simp add: buffer_of_call_error)
qed

lemma recognised_round:
  "recognised_cap_name ext (ustr ''round'')" "recognised_join_name ext (ustr ''round'')"
  by (simp_all add: recognised_cap_name_def recognised_join_name_def matches_name_def
      str_upper_def cp_upper_def ustr_def)

lemma first_array_examples:
  "first_array_param (scalar_only_params (PArr [PInt 8, PInt 16]) (PStr (ustr ''round'')) (PStr (ustr ''round''))
     (PArr []) (PBool False)) = Some ''quadsegs''"
  "first_array_param (scalar_only_params (PInt 8) (PStr (ustr ''round'')) (PArr [PStr (ustr ''round'')])
     (PFloat 5) PNone) = Some ''join_style''"
  by (simp_all add: first_array_param_def scalar_only_params_def)

subsection \<open>Coercions\<close>

lemma sint_word_of_int_in_range:
  assumes "in_intc_range i"
  shows "sint (word_of_int i :: intc) = i"
proof -
  have "0 \<le> i + 2 ^ 31" and "i + 2 ^ 31 < 2 ^ 32"
    using assms by (simp_all add: in_intc_range_def)
  then have "(i + 2 ^ 31) mod 2 ^ 32 = i + 2 ^ 31"
    by (rule mod_pos_pos_trivial)
  then show ?thesis
    by (simp add: int_word_sint)
qed

lemma truncate_real_integral: "of_int \<lfloor>x\<rfloor> = x \<Longrightarrow> truncate_real x = \<lfloor>x\<rfloor>"
  by (metis ceiling_of_int floor_of_int truncate_real_def)

text \<open>A float with a fraction is not kept: it loses the fraction.\<close>

lemma np_intc_truncates_fraction:
  "np_intc ext (PFloat (87 / 10)) = Inr 8" "np_intc ext (PFloat (- 87 / 10)) = Inr (- 8)"
  by (simp_all add: truncate_real_def in_intc_range_def)

lemma np_intc_exact:
  assumes "exact_int v = Some i" and "in_intc_range i"
  shows "\<exists>w. np_intc ext v = Inr w \<and> sint w = i"
proof (cases v)
  case (PBool b)
  then show ?thesis using assms(1) by (cases b) simp_all
next
  case (PInt k)
  then show ?thesis using assms by (simp add: sint_word_of_int_in_range)
next
  case (PFloat x)
  then have "of_int \<lfloor>x\<rfloor> = x" and "i = \<lfloor>x\<rfloor>"
    using assms(1) by (simp_all split: if_splits)
  then show ?thesis using PFloat assms(2)
    by (simp add: truncate_real_integral sint_word_of_int_in_range)
next
  case (PCap m)
  then show ?thesis using assms by (simp add: sint_word_of_int_in_range)
next
  case (PJoin m)
  then show ?thesis using assms by (simp add: sint_word_of_int_in_range)
qed (use assms(1) in simp_all)

lemma exact_int_isscalar: "exact_int v = Some i \<Longrightarrow> isscalar v"
  by (cases v) simp_all

lemma exact_bool_np_bool: "exact_bool v = Some b \<Longrightarrow> isscalar v \<and> np_bool v = b"
  by (cases v) (auto split: if_splits)

lemma buffer_call_shape:
  "buffer_call ext g r q c j ml ss = Inr call \<Longrightarrow>
   \<exists>qw cw jw. call = U_buffer g r qw cw jw ml (np_bool ss) \<and>
     (\<forall>g'. buffer_call ext g' r q c j ml ss = Inr (U_buffer g' r qw cw jw ml (np_bool ss)))"
  by (auto simp: buffer_call_def and_then_def split: sum.splits)

lemma buffer_call_error_any_geometry:
  "buffer_call ext g r q c j ml ss = Inl e \<Longrightarrow> buffer_call ext g' r q c j ml ss = Inl e"
  by (auto simp: buffer_call_def and_then_def split: sum.splits)

lemma buffer_call_default:
  "buffer_call ext g r (PInt 8) (PStr (ustr ''round'')) (PStr (ustr ''round'')) (PFloat 5) (PBool False)
   = Inr (U_buffer g r 8 1 1 (PFloat 5) False)"
  by (simp add: buffer_call_def and_then_def resolve_cap_style_lowercase
      resolve_join_style_lowercase scalar_checks_def in_intc_range_def)

subsection \<open>Element-wise application\<close>

lemma traverse_Inr_iff:
  "traverse f xs = Inr ys \<longleftrightarrow> list_all2 (\<lambda>x y. f x = Inr y) xs ys"
proof (induction xs arbitrary: ys)
  case Nil
  then show ?case by auto
next
  case (Cons x xs)
  show ?case
  proof (cases "f x")
    case (Inl e)
    then show ?thesis by (auto simp: and_then_def list_all2_Cons1)
  next
    case (Inr y)
    show ?thesis
    proof (cases "traverse f xs")
      case (Inl e)
      with Cons Inr show ?thesis
        by (auto simp: and_then_def list_all2_Cons1)
    next
      case r: (Inr zs)
      with Cons Inr show ?thesis
        by (auto simp: and_then_def list_all2_Cons1)
    qed
  qed
qed

lemma traverse_total:
  "(\<And>x. x \<in> set xs \<Longrightarrow> \<exists>y. f x = Inr y) \<Longrightarrow> \<exists>ys. traverse f xs = Inr ys"
proof (induction xs)
  case Nil
  then show ?case by simp
next
  case (Cons x xs)
  then obtain y ys where "f x = Inr y" "traverse f xs = Inr ys"
    by (meson list.set_intros)
  then show ?case by (simp add: and_then_def)
qed

lemma ufunc1_Scalar_iff: "ufunc1 f (Scalar x) = Inr out \<longleftrightarrow> (\<exists>y. out = Scalar y \<and> f x = Inr y)"
  by (cases "f x") (auto simp: and_then_def)

lemma ufunc1_Array_iff:
  "ufunc1 f (Array xs) = Inr out \<longleftrightarrow>
   (\<exists>ys. out = Array ys \<and> list_all2 (\<lambda>x y. f x = Inr y) xs ys)"
  by (cases "traverse f xs") (auto simp: and_then_def traverse_Inr_iff [symmetric])

lemma ufunc2_Scalar: "ufunc2 f A (Scalar y) = ufunc1 (\<lambda>x. f x y) A"
  by (cases A) simp_all

text \<open>
  Every operation with its scalar parameters is one validation, which does not look at
  the geometries, followed by one ufunc over the geometries.
\<close>

lemma buffer_call_cases:
  "(\<exists>e. \<forall>g :: 'h geometry arg. buffer_call ext g r q c j ml ss = Inl e) \<or>
   (\<exists>qw cw jw. \<forall>g :: 'h geometry arg.
      buffer_call ext g r q c j ml ss = Inr (U_buffer g r qw cw jw ml (np_bool ss)))"
proof (cases "buffer_call ext (Scalar Empty :: 'h geometry arg) r q c j ml ss")
  case (Inl e)
  then have "\<forall>g :: 'h geometry arg. buffer_call ext g r q c j ml ss = Inl e"
    using buffer_call_error_any_geometry by blast
  then show ?thesis by blast
next
  case (Inr call)
  then show ?thesis
    using buffer_call_shape by blast
qed

lemma apply_op_ufunc1:
  fixes K :: "'a geos"
  shows "\<exists>pre. \<forall>A. apply_op ext K op A = and_then pre (\<lambda>f. ufunc1 f A)"
proof (cases op)
  case Op_boundary
  have "\<forall>A. apply_op ext K op A = and_then (Inr (ufuncs_boundary_elem K)) (\<lambda>f. ufunc1 f A)"
    by (simp add: Op_boundary boundary_def boundary_call_def and_then_def)
  then show ?thesis ..
next
  case (Op_buffer r q c j m s)
  consider e where "\<forall>A :: 'a geometry arg. buffer_call ext A (Scalar r) q c j m s = Inl e"
    | qw cw jw where "\<forall>A :: 'a geometry arg. buffer_call ext A (Scalar r) q c j m s
        = Inr (U_buffer A (Scalar r) qw cw jw m (np_bool s))"
    using buffer_call_cases [of ext "Scalar r" q c j m s] by blast
  then show ?thesis
  proof cases
    case 1
    then have "\<forall>A. apply_op ext K op A = and_then (Inl e) (\<lambda>f. ufunc1 f A)"
      by (simp add: Op_buffer buffer_def and_then_def)
    then show ?thesis ..
  next
    case 2
    then have "\<forall>A. apply_op ext K op A =
        and_then (Inr (\<lambda>x. ufuncs_buffer_elem K qw cw jw m (np_bool s) x r)) (\<lambda>f. ufunc1 f A)"
      by (simp add: Op_buffer buffer_def and_then_def ufunc2_Scalar)
    then show ?thesis ..
  qed
next
  case Op_centroid
  have "\<forall>A. apply_op ext K op A = and_then (Inr (ufuncs_centroid_elem K)) (\<lambda>f. ufunc1 f A)"
    by (simp add: Op_centroid centroid_def centroid_call_def and_then_def)
  then show ?thesis ..
next
  case Op_convex_hull
  have "\<forall>A. apply_op ext K op A = and_then (Inr (ufuncs_convex_hull_elem K)) (\<lambda>f. ufunc1 f A)"
    by (simp add: Op_convex_hull convex_hull_def convex_hull_call_def and_then_def)
  then show ?thesis ..
next
  case (Op_delaunay_triangles t e)
  have "\<forall>A. apply_op ext K op A =
      and_then (Inr (\<lambda>x. geos_delaunay_triangles K x t e)) (\<lambda>f. ufunc1 f A)"
    by (simp add: Op_delaunay_triangles delaunay_triangles_def delaunay_triangles_call_def and_then_def)
  then show ?thesis ..
next
  case Op_envelope
  have "\<forall>A. apply_op ext K op A = and_then (Inr (geos_envelope K)) (\<lambda>f. ufunc1 f A)"
    by (simp add: Op_envelope envelope_def envelope_call_def and_then_def)
  then show ?thesis ..
next
  case Op_extract_unique_points
  have "\<forall>A. apply_op ext K op A = and_then (Inr (geos_extract_unique_points K)) (\<lambda>f. ufunc1 f A)"
    by (simp add: Op_extract_unique_points extract_unique_points_def
        extract_unique_points_call_def and_then_def)
  then show ?thesis ..
next
  case Op_point_on_surface
  have "\<forall>A. apply_op ext K op A = and_then (Inr (geos_point_on_surface K)) (\<lambda>f. ufunc1 f A)"
    by (simp add: Op_point_on_surface point_on_surface_def point_on_surface_call_def and_then_def)
  then show ?thesis ..
next
  case (Op_simplify t p)
  have "\<forall>A. apply_op ext K op A =
      and_then (Inr (\<lambda>x. if p then geos_simplify_preserve_topology K x t else geos_simplify K x t))
        (\<lambda>f. ufunc1 f A)"
    by (simp add: Op_simplify simplify_def simplify_call_def and_then_def)
  then show ?thesis ..
next
  case (Op_snap ref t)
  have "\<forall>A. apply_op ext K op A = and_then (Inr (\<lambda>x. geos_snap K x ref t)) (\<lambda>f. ufunc1 f A)"
    by (simp add: Op_snap snap_def snap_call_def and_then_def)
  then show ?thesis ..
next
  case (Op_voronoi_polygons env t e)
  have "\<forall>A. apply_op ext K op A =
      and_then (Inr (\<lambda>x. geos_voronoi_polygons K x env t e)) (\<lambda>f. ufunc1 f A)"
    by (simp add: Op_voronoi_polygons voronoi_polygons_def voronoi_polygons_call_def and_then_def)
  then show ?thesis ..
qed

lemma enum_values_nonzero: "cap_value m \<noteq> 0" "join_value m' \<noteq> 0"
  by (cases m, simp_all) (cases m', simp_all)

lemma np_bool_scalar:
  "isscalar v \<Longrightarrow> np_bool v \<longleftrightarrow> v \<notin> {PBool False, PInt 0, PFloat 0, PStr []}"
  by (cases v) (auto simp: enum_values_nonzero)

lemma buffer_call_fraction:
  "buffer_call ext g r (PFloat (87 / 10)) (PStr (ustr ''round'')) (PStr (ustr ''round''))
     (PFloat 5) (PBool False) = Inr (U_buffer g r 8 1 1 (PFloat 5) False)"
  by (simp add: buffer_call_def and_then_def resolve_cap_style_lowercase
      resolve_join_style_lowercase scalar_checks_def in_intc_range_def truncate_real_def)

section \<open>Claims\<close>

text \<open>
  C1. For every geometry, radius and the other parameters, \<^verbatim>\<open>buffer\<close> called with
  the name of a cap or join style as a string makes the same call of \<^verbatim>\<open>ufuncs.buffer\<close>,
  and so returns the same result, as \<^verbatim>\<open>buffer\<close> called with the integer code of that
  style: round, flat, square are 1, 2, 3 for caps and round, mitre, bevel are 1, 2, 3
  for joins.
\<close>

theorem buffer_style_name_equals_code:
  "(buffer_call ext g r q (PStr (ustr ''round'')) j ml ss = buffer_call ext g r q (PInt 1) j ml ss \<and>
    buffer_call ext g r q (PStr (ustr ''flat'')) j ml ss = buffer_call ext g r q (PInt 2) j ml ss \<and>
    buffer_call ext g r q (PStr (ustr ''square'')) j ml ss = buffer_call ext g r q (PInt 3) j ml ss \<and>
    buffer_call ext g r q c (PStr (ustr ''round'')) ml ss = buffer_call ext g r q c (PInt 1) ml ss \<and>
    buffer_call ext g r q c (PStr (ustr ''mitre'')) ml ss = buffer_call ext g r q c (PInt 2) ml ss \<and>
    buffer_call ext g r q c (PStr (ustr ''bevel'')) ml ss = buffer_call ext g r q c (PInt 3) ml ss) \<and>
   (buffer ext K g r q (PStr (ustr ''round'')) j ml ss = buffer ext K g r q (PInt 1) j ml ss \<and>
    buffer ext K g r q (PStr (ustr ''flat'')) j ml ss = buffer ext K g r q (PInt 2) j ml ss \<and>
    buffer ext K g r q (PStr (ustr ''square'')) j ml ss = buffer ext K g r q (PInt 3) j ml ss \<and>
    buffer ext K g r q c (PStr (ustr ''round'')) ml ss = buffer ext K g r q c (PInt 1) ml ss \<and>
    buffer ext K g r q c (PStr (ustr ''mitre'')) ml ss = buffer ext K g r q c (PInt 2) ml ss \<and>
    buffer ext K g r q c (PStr (ustr ''bevel'')) ml ss = buffer ext K g r q c (PInt 3) ml ss)"
proof -
  have cap: "buffer_call ext g r q (PStr (ustr ''round'')) j ml ss = buffer_call ext g r q (PInt 1) j ml ss"
      "buffer_call ext g r q (PStr (ustr ''flat'')) j ml ss = buffer_call ext g r q (PInt 2) j ml ss"
      "buffer_call ext g r q (PStr (ustr ''square'')) j ml ss = buffer_call ext g r q (PInt 3) j ml ss"
    by (rule buffer_call_cap_cong, simp add: resolve_cap_style_lowercase resolve_style_int)+
  have join: "buffer_call ext g r q c (PStr (ustr ''round'')) ml ss = buffer_call ext g r q c (PInt 1) ml ss"
      "buffer_call ext g r q c (PStr (ustr ''mitre'')) ml ss = buffer_call ext g r q c (PInt 2) ml ss"
      "buffer_call ext g r q c (PStr (ustr ''bevel'')) ml ss = buffer_call ext g r q c (PInt 3) ml ss"
    by (rule buffer_call_join_cong, simp add: resolve_join_style_lowercase resolve_style_int)+
  show ?thesis
    using cap join by (simp add: buffer_def)
qed

theorem buffer_style_name_equals_code_witness:
  "buffer toy_python toy_geos (Scalar (Geometry LINESTRING 7)) (Scalar 2) (PInt 8)
     (PStr (ustr ''flat'')) (PStr (ustr ''round'')) (PFloat 5) (PBool False)
   = buffer toy_python toy_geos (Scalar (Geometry LINESTRING 7)) (Scalar 2) (PInt 8)
     (PInt 2) (PInt 1) (PFloat 5) (PBool False)
   \<and> buffer toy_python toy_geos (Scalar (Geometry LINESTRING 7)) (Scalar 2) (PInt 8)
     (PStr (ustr ''flat'')) (PStr (ustr ''round'')) (PFloat 5) (PBool False)
   = Inr (Scalar (Geometry LINESTRING 7))"
  using buffer_style_name_equals_code [of toy_python "Scalar (Geometry LINESTRING 7)" "Scalar 2"
      "PInt 8" "PStr (ustr ''round'')" "PFloat 5" "PBool False" "PInt 2" toy_geos]
    toy_buffer_flat
  by simp

text \<open>
  C8. The resolution of style names ignores case: any two spellings that are the same
  up to case as the name of a member resolve to the code of that member, make the
  same call and give the same result.
\<close>

theorem buffer_style_name_case_insensitive:
  "(same_ignoring_case s (ustr (cap_name m)) \<and> same_ignoring_case t (ustr (cap_name m)) \<longrightarrow>
      resolve_cap_style ext (PStr s) = Inr (PInt (cap_value m)) \<and>
      resolve_cap_style ext (PStr t) = Inr (PInt (cap_value m)) \<and>
      buffer_call ext g r q (PStr s) j ml ss = buffer_call ext g r q (PStr t) j ml ss \<and>
      buffer ext K g r q (PStr s) j ml ss = buffer ext K g r q (PStr t) j ml ss) \<and>
   (same_ignoring_case s (ustr (join_name m')) \<and> same_ignoring_case t (ustr (join_name m')) \<longrightarrow>
      resolve_join_style ext (PStr s) = Inr (PInt (join_value m')) \<and>
      resolve_join_style ext (PStr t) = Inr (PInt (join_value m')) \<and>
      buffer_call ext g r q c (PStr s) ml ss = buffer_call ext g r q c (PStr t) ml ss \<and>
      buffer ext K g r q c (PStr s) ml ss = buffer ext K g r q c (PStr t) ml ss)"
proof (intro conjI impI)
  assume a: "same_ignoring_case s (ustr (cap_name m)) \<and> same_ignoring_case t (ustr (cap_name m))"
  then show s: "resolve_cap_style ext (PStr s) = Inr (PInt (cap_value m))"
    and t: "resolve_cap_style ext (PStr t) = Inr (PInt (cap_value m))"
    by (simp_all add: resolve_cap_style_name)
  then show call: "buffer_call ext g r q (PStr s) j ml ss = buffer_call ext g r q (PStr t) j ml ss"
    by (intro buffer_call_cap_cong) simp
  then show "buffer ext K g r q (PStr s) j ml ss = buffer ext K g r q (PStr t) j ml ss"
    by (rule buffer_of_call_eq)
next
  assume a: "same_ignoring_case s (ustr (join_name m')) \<and> same_ignoring_case t (ustr (join_name m'))"
  then show s: "resolve_join_style ext (PStr s) = Inr (PInt (join_value m'))"
    and t: "resolve_join_style ext (PStr t) = Inr (PInt (join_value m'))"
    by (simp_all add: resolve_join_style_name)
  then show call: "buffer_call ext g r q c (PStr s) ml ss = buffer_call ext g r q c (PStr t) ml ss"
    by (intro buffer_call_join_cong) simp
  then show "buffer ext K g r q c (PStr s) ml ss = buffer ext K g r q c (PStr t) ml ss"
    by (rule buffer_of_call_eq)
qed

theorem buffer_style_name_case_insensitive_witness:
  "(same_ignoring_case (ustr ''ROUND'') (ustr (cap_name Cap_ROUND)) \<and>
    same_ignoring_case (ustr ''Round'') (ustr (cap_name Cap_ROUND)) \<and>
    same_ignoring_case (ustr ''round'') (ustr (cap_name Cap_ROUND))) \<and>
   resolve_cap_style toy_python (PStr (ustr ''ROUND'')) = Inr (PInt 1) \<and>
   resolve_cap_style toy_python (PStr (ustr ''Round'')) = Inr (PInt 1) \<and>
   resolve_cap_style toy_python (PStr (ustr ''round'')) = Inr (PInt 1) \<and>
   buffer toy_python toy_geos (Scalar (Geometry LINESTRING 7)) (Scalar 2) (PInt 8)
     (PStr (ustr ''ROUND'')) (PStr (ustr ''round'')) (PFloat 5) (PBool False)
   = buffer toy_python toy_geos (Scalar (Geometry LINESTRING 7)) (Scalar 2) (PInt 8)
     (PStr (ustr ''Round'')) (PStr (ustr ''round'')) (PFloat 5) (PBool False) \<and>
   buffer toy_python toy_geos (Scalar (Geometry LINESTRING 7)) (Scalar 2) (PInt 8)
     (PStr (ustr ''round'')) (PStr (ustr ''round'')) (PFloat 5) (PBool False)
   = buffer toy_python toy_geos (Scalar (Geometry LINESTRING 7)) (Scalar 2) (PInt 8)
     (PStr (ustr ''Round'')) (PStr (ustr ''round'')) (PFloat 5) (PBool False) \<and>
   same_ignoring_case (ustr ''mItRe'') (ustr (join_name Join_MITRE)) \<and>
   same_ignoring_case (ustr ''MITRE'') (ustr (join_name Join_MITRE)) \<and>
   resolve_join_style toy_python (PStr (ustr ''mItRe'')) = Inr (PInt 2) \<and>
   buffer toy_python toy_geos (Scalar (Geometry LINESTRING 7)) (Scalar 2) (PInt 8)
     (PStr (ustr ''round'')) (PStr (ustr ''mItRe'')) (PFloat 5) (PBool False)
   = buffer toy_python toy_geos (Scalar (Geometry LINESTRING 7)) (Scalar 2) (PInt 8)
     (PStr (ustr ''round'')) (PStr (ustr ''MITRE'')) (PFloat 5) (PBool False)"
  using
    buffer_style_name_case_insensitive [of "ustr ''ROUND''" Cap_ROUND "ustr ''Round''" toy_python
      "Scalar (Geometry LINESTRING 7)" "Scalar 2" "PInt 8" "PStr (ustr ''round'')" "PFloat 5"
      "PBool False" toy_geos Join_ROUND "PStr (ustr ''round'')"]
    buffer_style_name_case_insensitive [of "ustr ''round''" Cap_ROUND "ustr ''Round''" toy_python
      "Scalar (Geometry LINESTRING 7)" "Scalar 2" "PInt 8" "PStr (ustr ''round'')" "PFloat 5"
      "PBool False" toy_geos Join_ROUND "PStr (ustr ''round'')"]
    buffer_style_name_case_insensitive [of "ustr ''mItRe''" Cap_ROUND "ustr ''MITRE''" toy_python
      "Scalar (Geometry LINESTRING 7)" "Scalar 2" "PInt 8" "PStr (ustr ''round'')" "PFloat 5"
      "PBool False" toy_geos Join_MITRE "PStr (ustr ''round'')"]
    casings_of_round
  by (simp add: same_ignoring_case_def)

text \<open>
  C5, as stated: an unrecognised style name makes \<^verbatim>\<open>buffer\<close> fail with an error that
  reports the offending value. The code looks up the upper-cased name and the KeyError
  carries that key: for \<^verbatim>\<open>cap_style="hexagon"\<close> it carries \<^verbatim>\<open>HEXAGON\<close>, not the
  value the caller passed.
\<close>

theorem buffer_unknown_style_name_counterexample:
  "\<not> recognised_cap_name toy_python (ustr ''hexagon'') \<and>
   buffer_call toy_python (Scalar (Geometry POINT (0::nat))) (Scalar 1) (PInt 8)
     (PStr (ustr ''hexagon'')) (PStr (ustr ''round'')) (PFloat 5) (PBool False)
     = Inl (KeyError (ustr ''HEXAGON'')) \<and>
   buffer_call toy_python (Scalar (Geometry POINT (0::nat))) (Scalar 1) (PInt 8)
     (PStr (ustr ''hexagon'')) (PStr (ustr ''round'')) (PFloat 5) (PBool False)
     \<noteq> Inl (KeyError (ustr ''hexagon''))"
  using resolve_cap_style_unrecognised [of toy_python "ustr ''hexagon''"]
    unrecognised_hexagon(1) [of toy_python]
    unrecognised_hexagon(2) [of "unicode_upper toy_python"]
  by (simp add: buffer_call_cap_error ustr_def)

text \<open>
  C5, amended: for every string given as \<^verbatim>\<open>cap_style\<close> whose upper-cased form is not
  the name of a cap style, \<^verbatim>\<open>buffer\<close> raises KeyError with the upper-cased form of that
  string, whatever the other arguments are; for every string given as
  \<^verbatim>\<open>join_style\<close> whose upper-cased form is not the name of a join style, when
  \<^verbatim>\<open>cap_style\<close> resolves, it raises KeyError with the upper-cased form of that
  string. In both cases no call of \<^verbatim>\<open>ufuncs.buffer\<close> is made: the result is the same
  for every kernel. This holds for every string of Unicode code points and every
  upper case table beyond ASCII.
\<close>

theorem buffer_unknown_style_name:
  "(\<not> recognised_cap_name ext s \<longrightarrow>
      buffer_call ext g r q (PStr s) j ml ss = Inl (KeyError (str_upper (unicode_upper ext) s)) \<and>
      buffer ext K g r q (PStr s) j ml ss = Inl (KeyError (str_upper (unicode_upper ext) s))) \<and>
   (\<not> recognised_join_name ext t \<and> \<not> unrecognised_cap ext c \<longrightarrow>
      buffer_call ext g r q c (PStr t) ml ss = Inl (KeyError (str_upper (unicode_upper ext) t)) \<and>
      buffer ext K g r q c (PStr t) ml ss = Inl (KeyError (str_upper (unicode_upper ext) t)))"
proof (intro conjI impI)
  assume "\<not> recognised_cap_name ext s"
  then have "resolve_cap_style ext (PStr s) = Inl (KeyError (str_upper (unicode_upper ext) s))"
    by (rule resolve_cap_style_unrecognised)
  then show call: "buffer_call ext g r q (PStr s) j ml ss
      = Inl (KeyError (str_upper (unicode_upper ext) s))"
    by (rule buffer_call_cap_error)
  then show "buffer ext K g r q (PStr s) j ml ss = Inl (KeyError (str_upper (unicode_upper ext) s))"
    by (rule buffer_of_call_error)
next
  assume a: "\<not> recognised_join_name ext t \<and> \<not> unrecognised_cap ext c"
  then obtain c' where c': "resolve_cap_style ext c = Inr c'"
    using resolve_cap_style_Inr_iff by blast
  from a have "resolve_join_style ext (PStr t) = Inl (KeyError (str_upper (unicode_upper ext) t))"
    by (simp add: resolve_join_style_unrecognised)
  with c' show call: "buffer_call ext g r q c (PStr t) ml ss
      = Inl (KeyError (str_upper (unicode_upper ext) t))"
    by (rule buffer_call_join_error)
  then show "buffer ext K g r q c (PStr t) ml ss = Inl (KeyError (str_upper (unicode_upper ext) t))"
    by (rule buffer_of_call_error)
qed

theorem buffer_unknown_style_name_witness:
  "\<not> recognised_cap_name toy_python (ustr ''hexagon'') \<and>
   buffer toy_python toy_geos (Scalar (Geometry POINT 0)) (Scalar 1) (PInt 8)
     (PStr (ustr ''hexagon'')) (PStr (ustr ''round'')) (PFloat 5) (PBool False)
     = Inl (KeyError (ustr ''HEXAGON'')) \<and>
   \<not> recognised_join_name toy_python (ustr ''hexagon'') \<and>
   \<not> unrecognised_cap toy_python (PArr [PInt 1]) \<and>
   buffer toy_python toy_geos (Scalar (Geometry POINT 0)) (Scalar 1) (PInt 8)
     (PArr [PInt 1]) (PStr (ustr ''hexagon'')) (PFloat 5) (PBool False)
     = Inl (KeyError (ustr ''HEXAGON'')) \<and>
   \<not> recognised_cap_name toy_python [233] \<and>
   buffer toy_python toy_geos (Scalar (Geometry POINT 0)) (Scalar 1) (PInt 8)
     (PStr [233]) (PStr (ustr ''round'')) (PFloat 5) (PBool False)
     = Inl (KeyError [201])"
proof -
  have h: "\<not> recognised_cap_name toy_python (ustr ''hexagon'')"
    "\<not> recognised_join_name toy_python (ustr ''hexagon'')"
    "\<not> unrecognised_cap toy_python (PArr [PInt 1])"
    "\<not> recognised_cap_name toy_python [233]"
    by (simp_all add: unrecognised_hexagon resolve_beyond_ascii unrecognised_cap_def)
  have u: "str_upper (unicode_upper toy_python) (ustr ''hexagon'') = ustr ''HEXAGON''"
    "str_upper (unicode_upper toy_python) [233] = [201]"
    by (simp_all add: unrecognised_hexagon upper_beyond_ascii toy_python_def)
  show ?thesis
    using h u
      buffer_unknown_style_name [of toy_python "ustr ''hexagon''" "Scalar (Geometry POINT 0)"
        "Scalar 1" "PInt 8" "PStr (ustr ''round'')" "PFloat 5" "PBool False" toy_geos
        "ustr ''hexagon''" "PArr [PInt 1]"]
      buffer_unknown_style_name [of toy_python "[233]" "Scalar (Geometry POINT 0)"
        "Scalar 1" "PInt 8" "PStr (ustr ''round'')" "PFloat 5" "PBool False" toy_geos
        "ustr ''hexagon''" "PArr [PInt 1]"]
    by simp
qed

text \<open>
  C2, as stated: an array given for one of the five parameters always makes
  \<^verbatim>\<open>buffer\<close> fail with a TypeError. With an array for \<^verbatim>\<open>quadsegs\<close> and the
  unrecognised name \<^verbatim>\<open>hexagon\<close> for \<^verbatim>\<open>cap_style\<close> the error is the KeyError of the
  name, raised before the checks.
\<close>

theorem buffer_array_parameter_counterexample:
  "\<not> isscalar (PArr [PInt 8, PInt 16]) \<and>
   buffer_call toy_python (Scalar (Geometry POINT (0::nat))) (Scalar 1) (PArr [PInt 8, PInt 16])
     (PStr (ustr ''hexagon'')) (PStr (ustr ''round'')) (PFloat 5) (PBool False) = Inl (KeyError (ustr ''HEXAGON'')) \<and>
   \<not> is_TypeError (buffer_call toy_python (Scalar (Geometry POINT (0::nat))) (Scalar 1)
     (PArr [PInt 8, PInt 16]) (PStr (ustr ''hexagon'')) (PStr (ustr ''round'')) (PFloat 5) (PBool False))"
  using resolve_cap_style_unrecognised [of toy_python "ustr ''hexagon''"]
    unrecognised_hexagon(1) [of toy_python]
    unrecognised_hexagon(2) [of "unicode_upper toy_python"]
  by (simp add: buffer_call_cap_error ustr_def)

text \<open>
  C2, amended: when neither \<^verbatim>\<open>cap_style\<close> nor \<^verbatim>\<open>join_style\<close> is an unrecognised
  string, every call of \<^verbatim>\<open>buffer\<close> in which one of \<^verbatim>\<open>quadsegs\<close>, \<^verbatim>\<open>cap_style\<close>,
  \<^verbatim>\<open>join_style\<close>, \<^verbatim>\<open>mitre_limit\<close>, \<^verbatim>\<open>single_sided\<close> is not a scalar fails with a
  TypeError whose message starts with the name of such a parameter, whatever the
  array holds; no call of \<^verbatim>\<open>ufuncs.buffer\<close> is made.
\<close>

theorem buffer_array_parameter_type_error:
  assumes "\<not> unrecognised_cap ext c" and "\<not> unrecognised_join ext j"
    and "\<not> isscalar q \<or> \<not> isscalar c \<or> \<not> isscalar j \<or> \<not> isscalar ml \<or> \<not> isscalar ss"
  shows "\<exists>p v. (p, v) \<in> set (scalar_only_params q c j ml ss) \<and> \<not> isscalar v \<and>
     buffer_call ext g r q c j ml ss = Inl (TypeError (p @ '' only accepts scalar values'')) \<and>
     buffer ext K g r q c j ml ss = Inl (TypeError (p @ '' only accepts scalar values''))"
proof -
  obtain c' j' where res: "resolve_cap_style ext c = Inr c'" "resolve_join_style ext j = Inr j'"
    using assms(1,2) resolve_cap_style_Inr_iff resolve_join_style_Inr_iff by blast
  from assms(3) obtain p0 v0 where "(p0, v0) \<in> set (scalar_only_params q c j ml ss)" "\<not> isscalar v0"
    by (auto simp: scalar_only_params_def)
  then obtain p where p: "first_array_param (scalar_only_params q c j ml ss) = Some p"
    using first_array_param_exists by blast
  then obtain v where v: "(p, v) \<in> set (scalar_only_params q c j ml ss)" "\<not> isscalar v"
    using first_array_param_Some by blast
  have call: "buffer_call ext g r q c j ml ss = Inl (TypeError (p @ '' only accepts scalar values''))"
    using res p by (rule buffer_call_first_array)
  then have "buffer ext K g r q c j ml ss = Inl (TypeError (p @ '' only accepts scalar values''))"
    by (rule buffer_of_call_error)
  with v call show ?thesis by blast
qed

theorem buffer_array_parameter_type_error_witness:
  "\<not> unrecognised_cap toy_python (PStr (ustr ''round'')) \<and> \<not> unrecognised_join toy_python (PStr (ustr ''round'')) \<and>
   \<not> isscalar (PArr [PInt 8, PInt 16]) \<and>
   (\<exists>p v. (p, v) \<in> set (scalar_only_params (PArr [PInt 8, PInt 16]) (PStr (ustr ''round''))
        (PStr (ustr ''round'')) (PFloat 5) (PBool False)) \<and> \<not> isscalar v \<and>
      buffer_call toy_python (Scalar (Geometry POINT (0::nat))) (Scalar 1) (PArr [PInt 8, PInt 16])
        (PStr (ustr ''round'')) (PStr (ustr ''round'')) (PFloat 5) (PBool False)
        = Inl (TypeError (p @ '' only accepts scalar values'')) \<and>
      buffer toy_python toy_geos (Scalar (Geometry POINT 0)) (Scalar 1) (PArr [PInt 8, PInt 16])
        (PStr (ustr ''round'')) (PStr (ustr ''round'')) (PFloat 5) (PBool False)
        = Inl (TypeError (p @ '' only accepts scalar values'')))"
proof -
  have h: "\<not> unrecognised_cap toy_python (PStr (ustr ''round''))" "\<not> unrecognised_join toy_python (PStr (ustr ''round''))"
    by (simp_all add: unrecognised_cap_def unrecognised_join_def recognised_round)
  have a: "\<not> isscalar (PArr [PInt 8, PInt 16]) \<or> \<not> isscalar (PStr (ustr ''round'')) \<or>
      \<not> isscalar (PStr (ustr ''round'')) \<or> \<not> isscalar (PFloat 5) \<or> \<not> isscalar (PBool False)"
    by simp
  have s: "\<not> isscalar (PArr [PInt 8, PInt 16])"
    by simp
  show ?thesis
    using h s buffer_array_parameter_type_error [OF h a, of "Scalar (Geometry POINT 0)"
        "Scalar 1" toy_geos]
    by blast
qed

text \<open>
  C10. In \<^verbatim>\<open>buffer\<close> the style names are resolved before the scalar checks, and the
  checks run in the order quadsegs, cap_style, join_style, mitre_limit, single_sided:
  when \<^verbatim>\<open>cap_style\<close> or \<^verbatim>\<open>join_style\<close> is an unrecognised string the error is the
  KeyError, whatever else is an array; otherwise, when some of the five parameters
  are arrays, the TypeError names the first of them in that order.
\<close>

theorem buffer_error_precedence:
  "(unrecognised_cap ext c \<or> unrecognised_join ext j \<longrightarrow>
      is_KeyError (buffer_call ext g r q c j ml ss) \<and>
      is_KeyError (buffer ext K g r q c j ml ss)) \<and>
   (\<not> unrecognised_cap ext c \<and> \<not> unrecognised_join ext j \<and>
    first_array_param (scalar_only_params q c j ml ss) = Some p \<longrightarrow>
      buffer_call ext g r q c j ml ss = Inl (TypeError (p @ '' only accepts scalar values'')) \<and>
      buffer ext K g r q c j ml ss = Inl (TypeError (p @ '' only accepts scalar values'')))"
proof (intro conjI impI)
  assume "unrecognised_cap ext c \<or> unrecognised_join ext j"
  then show k: "is_KeyError (buffer_call ext g r q c j ml ss)"
    by (rule buffer_call_unrecognised)
  then show "is_KeyError (buffer ext K g r q c j ml ss)"
    by (rule is_KeyError_buffer)
next
  assume a: "\<not> unrecognised_cap ext c \<and> \<not> unrecognised_join ext j \<and>
    first_array_param (scalar_only_params q c j ml ss) = Some p"
  then obtain c' j' where res: "resolve_cap_style ext c = Inr c'" "resolve_join_style ext j = Inr j'"
    using resolve_cap_style_Inr_iff resolve_join_style_Inr_iff by blast
  from a have p: "first_array_param (scalar_only_params q c j ml ss) = Some p"
    by simp
  show call: "buffer_call ext g r q c j ml ss = Inl (TypeError (p @ '' only accepts scalar values''))"
    using res p by (rule buffer_call_first_array)
  then show "buffer ext K g r q c j ml ss = Inl (TypeError (p @ '' only accepts scalar values''))"
    by (rule buffer_of_call_error)
qed

theorem buffer_error_precedence_witness:
  "unrecognised_cap toy_python (PStr (ustr ''hexagon'')) \<and>
   \<not> isscalar (PArr [PInt 8, PInt 16]) \<and>
   is_KeyError (buffer toy_python toy_geos (Scalar (Geometry POINT 0)) (Scalar 1)
     (PArr [PInt 8, PInt 16]) (PStr (ustr ''hexagon'')) (PStr (ustr ''round'')) (PArr []) (PBool False)) \<and>
   \<not> unrecognised_cap toy_python (PStr (ustr ''round'')) \<and> \<not> unrecognised_join toy_python (PStr (ustr ''round'')) \<and>
   buffer toy_python toy_geos (Scalar (Geometry POINT 0)) (Scalar 1)
     (PArr [PInt 8, PInt 16]) (PStr (ustr ''round'')) (PStr (ustr ''round'')) (PArr []) (PBool False)
     = Inl (TypeError ''quadsegs only accepts scalar values'') \<and>
   \<not> unrecognised_join toy_python (PArr [PStr (ustr ''round'')]) \<and>
   buffer toy_python toy_geos (Scalar (Geometry POINT 0)) (Scalar 1)
     (PInt 8) (PStr (ustr ''round'')) (PArr [PStr (ustr ''round'')]) (PFloat 5) PNone
     = Inl (TypeError ''join_style only accepts scalar values'')"
proof -
  have h: "unrecognised_cap toy_python (PStr (ustr ''hexagon''))" "\<not> unrecognised_cap toy_python (PStr (ustr ''round''))"
    "\<not> unrecognised_join toy_python (PStr (ustr ''round''))" "\<not> unrecognised_join toy_python (PArr [PStr (ustr ''round'')])"
    by (simp_all add: unrecognised_cap_def unrecognised_join_def recognised_round unrecognised_hexagon)
  show ?thesis
    using h first_array_examples
      buffer_error_precedence [of toy_python "PStr (ustr ''hexagon'')" "PStr (ustr ''round'')"
        "Scalar (Geometry POINT 0)" "Scalar 1" "PArr [PInt 8, PInt 16]" "PArr []" "PBool False"
        toy_geos "''quadsegs''"]
      buffer_error_precedence [of toy_python "PStr (ustr ''round'')" "PStr (ustr ''round'')"
        "Scalar (Geometry POINT 0)" "Scalar 1" "PArr [PInt 8, PInt 16]" "PArr []" "PBool False"
        toy_geos "''quadsegs''"]
      buffer_error_precedence [of toy_python "PStr (ustr ''round'')" "PArr [PStr (ustr ''round'')]"
        "Scalar (Geometry POINT 0)" "Scalar 1" "PInt 8" "PFloat 5" "PNone"
        toy_geos "''join_style''"]
    by simp
qed

text \<open>
  C9, as stated: for every in-range input the coercion keeps the value, with no silent
  truncation. \<^verbatim>\<open>quadsegs=8.7\<close> lies within the range of the 32-bit integers, passes
  the scalar check, is truncated by \<^verbatim>\<open>numpy.intc\<close> and reaches the kernel as 8.
\<close>

theorem buffer_coercion_counterexample:
  "isscalar (PFloat (87 / 10)) \<and> in_intc_range (truncate_real (87 / 10)) \<and>
   buffer_call toy_python (Scalar (Geometry POINT (0::nat))) (Scalar 1) (PFloat (87 / 10))
     (PStr (ustr ''round'')) (PStr (ustr ''round'')) (PFloat 5) (PBool False)
     = Inr (U_buffer (Scalar (Geometry POINT 0)) (Scalar 1) 8 1 1 (PFloat 5) False) \<and>
   real_of_int (sint (8 :: intc)) \<noteq> 87 / 10"
  using buffer_call_fraction [of toy_python "Scalar (Geometry POINT (0::nat))" "Scalar 1"]
  by (simp add: in_intc_range_def truncate_real_def)

text \<open>
  C9, amended: before the call, \<^verbatim>\<open>buffer\<close> turns \<^verbatim>\<open>quadsegs\<close> and the resolved
  styles into 32-bit signed integers and \<^verbatim>\<open>single_sided\<close> into a boolean, and
  passes \<^verbatim>\<open>mitre_limit\<close> on as it is: every call it makes has this form. When each of
  the three integer parameters denotes an integer in the range of 32 bits (an int, a
  bool, an enum member or a float without a fraction) and \<^verbatim>\<open>mitre_limit\<close> and
  \<^verbatim>\<open>single_sided\<close> are scalars, the call is made and carries exactly those integers.
  The boolean carried is the truth value of \<^verbatim>\<open>single_sided\<close>: false exactly for
  \<^verbatim>\<open>False\<close>, 0, 0.0 and the empty string, so a value that denotes a boolean is kept.
  A float is truncated towards zero, so one with a fraction loses it.
\<close>

theorem buffer_coercion_preserves_value:
  "(buffer_call ext g r q c j ml ss = Inr call \<longrightarrow>
      (\<exists>qw cw jw. call = U_buffer g r qw cw jw ml (np_bool ss))) \<and>
   (exact_int q = Some qi \<and> in_intc_range qi \<and>
    resolve_cap_style ext c = Inr c' \<and> exact_int c' = Some ci \<and> in_intc_range ci \<and>
    resolve_join_style ext j = Inr j' \<and> exact_int j' = Some ji \<and> in_intc_range ji \<and>
    isscalar ml \<and> isscalar ss \<longrightarrow>
      (\<exists>qw cw jw.
         buffer_call ext g r q c j ml ss = Inr (U_buffer g r qw cw jw ml (np_bool ss)) \<and>
         sint qw = qi \<and> sint cw = ci \<and> sint jw = ji)) \<and>
   (isscalar ss \<longrightarrow> np_bool ss = (ss \<notin> {PBool False, PInt 0, PFloat 0, PStr []})) \<and>
   (exact_bool ss = Some sb \<longrightarrow> isscalar ss \<and> np_bool ss = sb) \<and>
   (in_intc_range (truncate_real x) \<longrightarrow>
      (\<exists>w. np_intc ext (PFloat x) = Inr w \<and> sint w = truncate_real x))"
proof (intro conjI impI)
  assume "buffer_call ext g r q c j ml ss = Inr call"
  then show "\<exists>qw cw jw. call = U_buffer g r qw cw jw ml (np_bool ss)"
    using buffer_call_shape by blast
next
  assume a: "exact_int q = Some qi \<and> in_intc_range qi \<and>
    resolve_cap_style ext c = Inr c' \<and> exact_int c' = Some ci \<and> in_intc_range ci \<and>
    resolve_join_style ext j = Inr j' \<and> exact_int j' = Some ji \<and> in_intc_range ji \<and>
    isscalar ml \<and> isscalar ss"
  then have rc: "resolve_cap_style ext c = Inr c'" and rj: "resolve_join_style ext j = Inr j'"
    by simp_all
  obtain qw where qw: "np_intc ext q = Inr qw" "sint qw = qi"
    using a np_intc_exact [of q qi ext] by blast
  obtain cw where cw: "np_intc ext c' = Inr cw" "sint cw = ci"
    using a np_intc_exact [of c' ci ext] by blast
  obtain jw where jw: "np_intc ext j' = Inr jw" "sint jw = ji"
    using a np_intc_exact [of j' ji ext] by blast
  have "isscalar q" "isscalar c'" "isscalar j'"
    using a by (simp_all add: exact_int_isscalar)
  then have "isscalar q" "isscalar c" "isscalar j"
    using resolve_cap_style_isscalar [OF rc] resolve_join_style_isscalar [OF rj]
    by simp_all
  with a have "scalar_checks q c j ml ss = Inr ()"
    by (simp add: scalar_checks_def)
  then have "buffer_call ext g r q c j ml ss = Inr (U_buffer g r qw cw jw ml (np_bool ss))"
    using qw(1) cw(1) jw(1)
    by (simp add: buffer_call_resolved [OF rc rj] and_then_def)
  with qw(2) cw(2) jw(2)
  show "\<exists>qw cw jw.
      buffer_call ext g r q c j ml ss = Inr (U_buffer g r qw cw jw ml (np_bool ss)) \<and>
      sint qw = qi \<and> sint cw = ci \<and> sint jw = ji"
    by blast
next
  assume "isscalar ss"
  then show "np_bool ss = (ss \<notin> {PBool False, PInt 0, PFloat 0, PStr []})"
    by (rule np_bool_scalar)
next
  assume "exact_bool ss = Some sb"
  then show "isscalar ss" and "np_bool ss = sb"
    using exact_bool_np_bool by blast+
next
  assume "in_intc_range (truncate_real x)"
  then show "\<exists>w. np_intc ext (PFloat x) = Inr w \<and> sint w = truncate_real x"
    by (simp add: sint_word_of_int_in_range)
qed

theorem buffer_coercion_preserves_value_witness:
  "exact_int (PInt 16) = Some 16 \<and> in_intc_range 16 \<and>
   resolve_cap_style toy_python (PStr (ustr ''flat'')) = Inr (PInt 2) \<and>
   exact_int (PInt 2) = Some 2 \<and> in_intc_range 2 \<and>
   resolve_join_style toy_python (PFloat 3) = Inr (PFloat 3) \<and>
   exact_int (PFloat 3) = Some 3 \<and> in_intc_range 3 \<and>
   isscalar (PFloat (5 / 2)) \<and> isscalar (PInt 1) \<and> exact_bool (PInt 1) = Some True \<and>
   np_bool (PInt 1) = True \<and>
   (\<exists>qw cw jw.
      buffer_call toy_python (Scalar (Geometry LINESTRING (7::nat))) (Scalar 2) (PInt 16)
        (PStr (ustr ''flat'')) (PFloat 3) (PFloat (5 / 2)) (PInt 1)
      = Inr (U_buffer (Scalar (Geometry LINESTRING 7)) (Scalar 2) qw cw jw (PFloat (5 / 2)) True) \<and>
      sint qw = 16 \<and> sint cw = 2 \<and> sint jw = 3) \<and>
   in_intc_range (truncate_real (87 / 10)) \<and>
   (\<exists>w. np_intc toy_python (PFloat (87 / 10)) = Inr w \<and> sint w = 8)"
proof -
  have h: "exact_int (PInt 16) = Some 16 \<and> in_intc_range 16 \<and>
    resolve_cap_style toy_python (PStr (ustr ''flat'')) = Inr (PInt 2) \<and>
    exact_int (PInt 2) = Some 2 \<and> in_intc_range 2 \<and>
    resolve_join_style toy_python (PFloat 3) = Inr (PFloat 3) \<and>
    exact_int (PFloat 3) = Some 3 \<and> in_intc_range 3 \<and>
    isscalar (PFloat (5 / 2)) \<and> isscalar (PInt 1)"
    by (simp add: in_intc_range_def resolve_cap_style_lowercase resolve_join_style_def)
  have b: "exact_bool (PInt 1) = Some True"
    by simp
  note t = buffer_coercion_preserves_value [of toy_python "Scalar (Geometry LINESTRING (7::nat))"
      "Scalar 2" "PInt 16" "PStr (ustr ''flat'')" "PFloat 3" "PFloat (5 / 2)" "PInt 1"
      "U_simplify (Scalar Empty) 0" 16 "PInt 2" 2 "PFloat 3" 3 True "87 / 10"]
  have f: "in_intc_range (truncate_real (87 / 10))" "truncate_real (87 / 10) = 8"
    by (simp_all add: in_intc_range_def truncate_real_def)
  from t f have tr: "\<exists>w. np_intc toy_python (PFloat (87 / 10)) = Inr w \<and> sint w = 8"
    by simp
  from t b have nb: "np_bool (PInt 1) = True"
    by blast
  from t h
  have "\<exists>qw cw jw.
      buffer_call toy_python (Scalar (Geometry LINESTRING (7::nat))) (Scalar 2) (PInt 16)
        (PStr (ustr ''flat'')) (PFloat 3) (PFloat (5 / 2)) (PInt 1)
      = Inr (U_buffer (Scalar (Geometry LINESTRING 7)) (Scalar 2) qw cw jw (PFloat (5 / 2))
          (np_bool (PInt 1))) \<and>
      sint qw = 16 \<and> sint cw = 2 \<and> sint jw = 3"
    by blast
  with h b nb f(1) tr show ?thesis
    by simp
qed

text \<open>
  C4. \<^verbatim>\<open>simplify\<close> with \<^verbatim>\<open>preserve_topology=True\<close> calls
  \<^verbatim>\<open>ufuncs.simplify_preserve_topology\<close> and with \<^verbatim>\<open>preserve_topology=False\<close> calls
  \<^verbatim>\<open>ufuncs.simplify\<close>, two different functions of the kernel; both calls carry the
  geometries and the tolerance only, the flag is not an argument of either.
\<close>

theorem simplify_selects_ufunc:
  "simplify_call g t True = Inr (U_simplify_preserve_topology g t) \<and>
   simplify_call g t False = Inr (U_simplify g t) \<and>
   ufunc_name (U_simplify_preserve_topology g t) = ''simplify_preserve_topology'' \<and>
   ufunc_name (U_simplify g t) = ''simplify'' \<and>
   ufunc_name (U_simplify_preserve_topology g t) \<noteq> ufunc_name (U_simplify g t) \<and>
   simplify_call g t True \<noteq> simplify_call g t False \<and>
   simplify K g t True = run K (U_simplify_preserve_topology g t) \<and>
   simplify K g t False = run K (U_simplify g t)"
  by (simp add: simplify_call_def simplify_def and_then_def)

theorem simplify_selects_ufunc_witness:
  "simplify_call (Scalar (Geometry LINESTRING (7::nat))) 1 True
     = Inr (U_simplify_preserve_topology (Scalar (Geometry LINESTRING 7)) 1) \<and>
   simplify_call (Scalar (Geometry LINESTRING (7::nat))) 1 False
     = Inr (U_simplify (Scalar (Geometry LINESTRING 7)) 1) \<and>
   simplify toy_geos (Scalar (Geometry LINESTRING 7)) 1 True = Inr (Scalar (Geometry LINESTRING 7)) \<and>
   simplify toy_geos (Scalar (Geometry LINESTRING 7)) 1 False = Inr (Scalar (Geometry LINESTRING 0))"
  using simplify_selects_ufunc [of "Scalar (Geometry LINESTRING (7::nat))" 1 toy_geos]
  by (simp add: toy_geos_def and_then_def)

text \<open>
  C6. \<^verbatim>\<open>boundary(Empty)\<close>, \<^verbatim>\<open>centroid(Empty)\<close> and \<^verbatim>\<open>buffer(Empty, 1)\<close> each return
  Empty, for every kernel.
\<close>

theorem empty_propagation:
  "boundary K (Scalar Empty) [] = Inr (Scalar Empty) \<and>
   centroid K (Scalar Empty) = Inr (Scalar Empty) \<and>
   buffer_default ext K (Scalar Empty) (Scalar 1) = Inr (Scalar Empty)"
  by (simp add: boundary_def boundary_call_def centroid_def centroid_call_def buffer_default_def
      buffer_def buffer_call_default and_then_def ufuncs_boundary_elem_def
      ufuncs_centroid_elem_def ufuncs_buffer_elem_def)

theorem empty_propagation_witness:
  "boundary toy_geos (Scalar Empty) [] = Inr (Scalar Empty) \<and>
   centroid toy_geos (Scalar Empty) = Inr (Scalar Empty) \<and>
   buffer_default toy_python toy_geos (Scalar Empty) (Scalar 1) = Inr (Scalar Empty)"
  using empty_propagation [of toy_geos toy_python]
  by simp

text \<open>
  C7. For a point or a line and a radius that is not positive, \<^verbatim>\<open>buffer\<close> returns
  Empty, whatever the other parameters are, as long as they pass the checks and
  coercions of \<^verbatim>\<open>buffer\<close>.
\<close>

theorem buffer_nonpositive_radius_empty:
  assumes "is_point_or_line g" and "r \<le> 0"
    and "buffer_call ext (Scalar g) (Scalar r) q c j ml ss = Inr call"
  shows "buffer ext K (Scalar g) (Scalar r) q c j ml ss = Inr (Scalar Empty)"
proof -
  obtain qw cw jw where "call = U_buffer (Scalar g) (Scalar r) qw cw jw ml (np_bool ss)"
    using buffer_call_shape [OF assms(3)] by blast
  then show ?thesis
    using assms by (simp add: buffer_def and_then_def ufuncs_buffer_elem_def)
qed

theorem buffer_nonpositive_radius_empty_witness:
  "is_point_or_line (Geometry POINT (3::nat)) \<and> (- 2 :: real) \<le> 0 \<and>
   buffer_call toy_python (Scalar (Geometry POINT (3::nat))) (Scalar (- 2)) (PInt 1)
     (PStr (ustr ''round'')) (PStr (ustr ''round'')) (PFloat 5) (PBool False)
   = Inr (U_buffer (Scalar (Geometry POINT 3)) (Scalar (- 2)) 1 1 1 (PFloat 5) False) \<and>
   buffer toy_python toy_geos (Scalar (Geometry POINT 3)) (Scalar (- 2)) (PInt 1)
     (PStr (ustr ''round'')) (PStr (ustr ''round'')) (PFloat 5) (PBool False) = Inr (Scalar Empty) \<and>
   buffer toy_python toy_geos (Scalar (Geometry POINT 3)) (Scalar 2) (PInt 1)
     (PStr (ustr ''round'')) (PStr (ustr ''round'')) (PFloat 5) (PBool False) = Inr (Scalar (Geometry POINT 3))"
proof -
  have h: "is_point_or_line (Geometry POINT (3::nat))" "(- 2 :: real) \<le> 0"
    by simp_all
  have c: "buffer_call toy_python (Scalar (Geometry POINT (3::nat))) (Scalar (- 2)) (PInt 1)
     (PStr (ustr ''round'')) (PStr (ustr ''round'')) (PFloat 5) (PBool False)
     = Inr (U_buffer (Scalar (Geometry POINT 3)) (Scalar (- 2)) 1 1 1 (PFloat 5) False)"
    by (simp add: buffer_call_def and_then_def resolve_cap_style_lowercase
      resolve_join_style_lowercase scalar_checks_def in_intc_range_def)
  have p: "buffer toy_python toy_geos (Scalar (Geometry POINT 3)) (Scalar 2) (PInt 1)
     (PStr (ustr ''round'')) (PStr (ustr ''round'')) (PFloat 5) (PBool False) = Inr (Scalar (Geometry POINT 3))"
    by (simp add: buffer_def buffer_call_def and_then_def resolve_cap_style_lowercase
      resolve_join_style_lowercase scalar_checks_def in_intc_range_def ufuncs_buffer_elem_def
      toy_geos_def)
  show ?thesis
    using h c p buffer_nonpositive_radius_empty [OF h c, of toy_geos]
    by simp
qed

text \<open>
  C3. For every element-wise operation with its scalar parameters and every array of
  geometries: when the operation returns, its result is an array of the same length
  whose element at each index is the result of the operation on the geometry at that
  index alone; and when the array is not empty and the operation returns for each of
  its elements alone, it returns for the array.
\<close>

theorem elementwise_independence:
  "(apply_op ext K op (Array gs) = Inr out \<longrightarrow>
      (\<exists>ys. out = Array ys \<and> length ys = length gs \<and>
         (\<forall>i<length gs. apply_op ext K op (Scalar (gs ! i)) = Inr (Scalar (ys ! i))))) \<and>
   (gs \<noteq> [] \<and> (\<forall>i<length gs. \<exists>y. apply_op ext K op (Scalar (gs ! i)) = Inr (Scalar y)) \<longrightarrow>
      (\<exists>ys. apply_op ext K op (Array gs) = Inr (Array ys)))"
proof -
  obtain pre where pre: "\<And>A. apply_op ext K op A = and_then pre (\<lambda>f. ufunc1 f A)"
    using apply_op_ufunc1 [of ext K op] by blast
  show ?thesis
  proof (cases pre)
    case (Inl e)
    then have fails: "\<And>A. apply_op ext K op A = Inl e"
      by (simp add: pre and_then_def)
    show ?thesis
    proof (intro conjI impI)
      assume "apply_op ext K op (Array gs) = Inr out"
      then show "\<exists>ys. out = Array ys \<and> length ys = length gs \<and>
         (\<forall>i<length gs. apply_op ext K op (Scalar (gs ! i)) = Inr (Scalar (ys ! i)))"
        by (simp add: fails)
    next
      assume "gs \<noteq> [] \<and> (\<forall>i<length gs. \<exists>y. apply_op ext K op (Scalar (gs ! i)) = Inr (Scalar y))"
      then have "0 < length gs" "\<exists>y. apply_op ext K op (Scalar (gs ! 0)) = Inr (Scalar y)"
        by simp_all
      then show "\<exists>ys. apply_op ext K op (Array gs) = Inr (Array ys)"
        by (simp add: fails)
    qed
  next
    case (Inr f)
    then have app: "\<And>A. apply_op ext K op A = ufunc1 f A"
      by (simp add: pre and_then_def)
    show ?thesis
    proof (intro conjI impI)
      assume "apply_op ext K op (Array gs) = Inr out"
      then obtain ys where ys: "out = Array ys" "list_all2 (\<lambda>x y. f x = Inr y) gs ys"
        unfolding app ufunc1_Array_iff by blast
      then have "length ys = length gs" "\<forall>i<length gs. f (gs ! i) = Inr (ys ! i)"
        by (simp_all add: list_all2_conv_all_nth)
      with ys(1) show "\<exists>ys. out = Array ys \<and> length ys = length gs \<and>
         (\<forall>i<length gs. apply_op ext K op (Scalar (gs ! i)) = Inr (Scalar (ys ! i)))"
        by (simp add: app and_then_def)
    next
      assume a: "gs \<noteq> [] \<and> (\<forall>i<length gs. \<exists>y. apply_op ext K op (Scalar (gs ! i)) = Inr (Scalar y))"
      have "\<exists>y. f x = Inr y" if "x \<in> set gs" for x
      proof -
        from that obtain i where "i < length gs" "gs ! i = x"
          by (auto simp: in_set_conv_nth)
        with a obtain y where "ufunc1 f (Scalar x) = Inr (Scalar y)"
          unfolding app by blast
        then show ?thesis
          unfolding ufunc1_Scalar_iff by blast
      qed
      then obtain ys where "traverse f gs = Inr ys"
        using traverse_total [of gs f] by blast
      then show "\<exists>ys. apply_op ext K op (Array gs) = Inr (Array ys)"
        by (simp add: app and_then_def)
    qed
  qed
qed

theorem elementwise_independence_witness:
  "apply_op toy_python toy_geos (Op_buffer (- 1) (PInt 8) (PStr (ustr ''round'')) (PStr (ustr ''round'')) (PFloat 5) (PBool False))
     (Array [Geometry POINT 1, Empty, Geometry POLYGON 2])
     = Inr (Array [Empty, Empty, Geometry POLYGON 2]) \<and>
   apply_op toy_python toy_geos (Op_buffer (- 1) (PInt 8) (PStr (ustr ''round'')) (PStr (ustr ''round'')) (PFloat 5) (PBool False))
     (Scalar (Geometry POINT 1)) = Inr (Scalar Empty) \<and>
   apply_op toy_python toy_geos (Op_buffer (- 1) (PInt 8) (PStr (ustr ''round'')) (PStr (ustr ''round'')) (PFloat 5) (PBool False))
     (Scalar Empty) = Inr (Scalar Empty) \<and>
   apply_op toy_python toy_geos (Op_buffer (- 1) (PInt 8) (PStr (ustr ''round'')) (PStr (ustr ''round'')) (PFloat 5) (PBool False))
     (Scalar (Geometry POLYGON 2)) = Inr (Scalar (Geometry POLYGON 2)) \<and>
   [Geometry LINESTRING 4, Geometry POLYGON (5::nat)] \<noteq> [] \<and>
   apply_op toy_python toy_geos Op_boundary (Scalar (Geometry LINESTRING 4))
     = Inr (Scalar (Geometry LINESTRING 4)) \<and>
   apply_op toy_python toy_geos Op_boundary (Scalar (Geometry POLYGON 5))
     = Inr (Scalar (Geometry POLYGON 5)) \<and>
   (\<exists>ys. apply_op toy_python toy_geos Op_boundary (Array [Geometry LINESTRING 4, Geometry POLYGON 5])
     = Inr (Array ys))"
proof -
  let ?op = "Op_buffer (- 1) (PInt 8) (PStr (ustr ''round'')) (PStr (ustr ''round'')) (PFloat 5) (PBool False)"
  let ?gs = "[Geometry POINT 1, Empty, Geometry POLYGON (2::nat)]"
  have e: "apply_op toy_python toy_geos ?op (Array ?gs) = Inr (Array [Empty, Empty, Geometry POLYGON 2])"
    by (simp add: buffer_def buffer_call_default and_then_def ufuncs_buffer_elem_def toy_geos_def)
  from elementwise_independence [of toy_python toy_geos ?op ?gs "Array [Empty, Empty, Geometry POLYGON 2]"] e
  have all: "\<forall>i<length ?gs. apply_op toy_python toy_geos ?op (Scalar (?gs ! i))
      = Inr (Scalar ([Empty, Empty, Geometry POLYGON 2] ! i))"
    by blast
  have s0: "apply_op toy_python toy_geos ?op (Scalar (Geometry POINT 1)) = Inr (Scalar Empty)"
    using all [rule_format, of 0] by simp
  have s1: "apply_op toy_python toy_geos ?op (Scalar Empty) = Inr (Scalar Empty)"
    using all [rule_format, of 1] by simp
  have s2: "apply_op toy_python toy_geos ?op (Scalar (Geometry POLYGON 2)) = Inr (Scalar (Geometry POLYGON 2))"
    using all [rule_format, of 2] by simp
  let ?hs = "[Geometry LINESTRING 4, Geometry POLYGON (5::nat)]"
  have b0: "apply_op toy_python toy_geos Op_boundary (Scalar (Geometry LINESTRING 4))
      = Inr (Scalar (Geometry LINESTRING 4))"
    and b1: "apply_op toy_python toy_geos Op_boundary (Scalar (Geometry POLYGON 5))
      = Inr (Scalar (Geometry POLYGON 5))"
    by (simp_all add: boundary_def boundary_call_def and_then_def ufuncs_boundary_elem_def toy_geos_def)
  have "\<forall>i<length ?hs. \<exists>y. apply_op toy_python toy_geos Op_boundary (Scalar (?hs ! i)) = Inr (Scalar y)"
    using b0 b1 by (simp add: less_Suc_eq nth_Cons')
  with elementwise_independence [of toy_python toy_geos Op_boundary ?hs]
  have arr: "\<exists>ys. apply_op toy_python toy_geos Op_boundary (Array ?hs) = Inr (Array ys)"
    by blast
  show ?thesis
    using e s0 s1 s2 b0 b1 arr by blast
qed

end
